theory Spec2Isabelle
  imports Complex_Main
begin

section \<open>Python strings\<close>

text \<open>
  A Python \<open>str\<close> is modelled as a HOL \<open>string\<close>, one \<open>char\<close> per character
  (the characters below code point 256). \<open>lower\<close> is \<open>str.lower()\<close> on that range as far
  as the letters A-Z go; \<open>py_in sub s\<close> is the substring test \<open>sub in s\<close>;
  \<open>split_once sep s\<close> is \<open>s.split(sep, 1)\<close> for an \<open>s\<close> that contains \<open>sep\<close>.
\<close>

definition lower_char :: "char \<Rightarrow> char" where
  "lower_char c =
     (case map_of (zip ''ABCDEFGHIJKLMNOPQRSTUVWXYZ'' ''abcdefghijklmnopqrstuvwxyz'') c of
        Some d \<Rightarrow> d
      | None \<Rightarrow> c)"

definition lower :: "string \<Rightarrow> string" where
  "lower s = map lower_char s"

fun startswith :: "string \<Rightarrow> string \<Rightarrow> bool" where
  "startswith s [] = True"
| "startswith [] (p # ps) = False"
| "startswith (c # cs) (p # ps) = (c = p \<and> startswith cs ps)"

fun py_in :: "string \<Rightarrow> string \<Rightarrow> bool" where
  "py_in sub [] = (sub = [])"
| "py_in sub (c # cs) = (startswith (c # cs) sub \<or> py_in sub cs)"

definition split_once :: "char \<Rightarrow> string \<Rightarrow> string \<times> string" where
  "split_once sep s = (takeWhile (\<lambda>c. c \<noteq> sep) s, tl (dropWhile (\<lambda>c. c \<noteq> sep) s))"

text \<open>The two quote characters, as one-character strings.\<close>

definition sq :: string where
  "sq = [CHR 0x27]"

definition dq :: string where
  "dq = [CHR 0x22]"

text \<open>Truthiness of an \<open>Optional[str]\<close>: \<open>None\<close> and the empty string are falsy.\<close>

definition truthy :: "string option \<Rightarrow> bool" where
  "truthy v = (case v of None \<Rightarrow> False | Some s \<Rightarrow> s \<noteq> [])"

section \<open>Exceptions\<close>

datatype exn_kind =
  ValueError | TypeError | AttributeError | JSONDecodeError | OSError
  | UnicodeDecodeError | RecursionError

datatype exn = Exn exn_kind string

fun exn_kind_of :: "exn \<Rightarrow> exn_kind" where
  "exn_kind_of (Exn k m) = k"

fun exn_str :: "exn \<Rightarrow> string" where
  "exn_str (Exn k m) = m"

definition exn_bind :: "exn + 'a \<Rightarrow> ('a \<Rightarrow> exn + 'b) \<Rightarrow> exn + 'b" where
  "exn_bind m f = (case m of Inl e \<Rightarrow> Inl e | Inr x \<Rightarrow> f x)"

section \<open>PiMonoAgent: configuration\<close>

text \<open>
  The keyword arguments \<open>PiMonoAgent.__init__\<close> reads, each \<open>None\<close> when the caller
  did not pass it, and the attributes the constructor leaves on the agent.
\<close>

record pi_kwargs =
  kw_provider :: "string option"
  kw_pi_model :: "string option"
  kw_output_mode :: "string option"
  kw_no_session :: "bool option"
  kw_timeout_seconds :: "int option"

record pi_agent =
  provider :: string
  pi_model :: "string option"
  output_mode :: string
  no_session :: bool
  timeout_seconds :: int

definition provider_map :: "(string \<times> string) list" where
  "provider_map =
     [(''anthropic'', ''anthropic''), (''openai'', ''openai''), (''google'', ''google''),
      (''groq'', ''groq''), (''cerebras'', ''cerebras''), (''xai'', ''xai''),
      (''openrouter'', ''openrouter'')]"

definition normalize_model_id :: "string \<Rightarrow> string option \<Rightarrow> string option" where
  "normalize_model_id prov model =
     (case model of
        None \<Rightarrow> None
      | Some m \<Rightarrow>
          if m = [] \<or> CHR ''/'' \<notin> set m then Some m
          else (let (prefix, remainder) = split_once CHR ''/'' m
                in if lower prefix = lower prov then Some remainder else Some m))"

text \<open>
  Lines 62-94: the pi model chosen from the model string when no \<open>pi_model\<close> was
  passed; \<open>None\<close> where the code assigns nothing (a claude model that is neither haiku,
  opus nor sonnet).
\<close>

definition map_model_name :: "string \<Rightarrow> string option" where
  "map_model_name model =
     (let lower_model = lower model in
      if py_in ''claude'' lower_model then
        (if py_in ''haiku'' lower_model then Some ''claude-3-5-haiku-latest''
         else if py_in ''opus'' lower_model then Some ''claude-3-opus-latest''
         else if py_in ''sonnet'' lower_model then Some ''claude-3-5-sonnet-latest''
         else None)
      else if py_in ''gpt'' lower_model then
        (if py_in ''5.1-codex-mini'' lower_model then Some ''gpt-5.1-codex-mini''
         else if py_in ''5.1-codex'' lower_model then Some ''gpt-5.1-codex''
         else if py_in ''5.1'' lower_model then Some ''gpt-5.1''
         else if py_in ''4o'' lower_model then Some ''gpt-4o''
         else if py_in ''4-turbo'' lower_model \<or> py_in ''4turbo'' lower_model
           then Some ''gpt-4-turbo''
         else if py_in ''o1'' lower_model then Some ''o1-preview''
         else if py_in ''3.5'' lower_model then Some ''gpt-3.5-turbo''
         else Some ''gpt-4o'')
      else if py_in ''gemini'' lower_model then Some ''gemini-2.0-flash-exp''
      else Some model)"

definition PiMonoAgent_init :: "pi_kwargs \<Rightarrow> string option \<Rightarrow> exn + pi_agent" where
  "PiMonoAgent_init kw model_name =
     exn_bind
       (if \<not> truthy (kw_provider kw) then
          (case model_name of
             None \<Rightarrow>
               Inl (Exn ValueError ''PiMonoAgent expects model_name like 'provider/model'.'')
           | Some mn \<Rightarrow>
               if mn = [] \<or> CHR ''/'' \<notin> set mn
               then Inl (Exn ValueError ''PiMonoAgent expects model_name like 'provider/model'.'')
               else Inr (split_once CHR ''/'' mn))
        else
          Inr (the (kw_provider kw),
               (case model_name of
                  None \<Rightarrow> []
                | Some mn \<Rightarrow> if CHR ''/'' \<in> set mn then snd (split_once CHR ''/'' mn) else mn)))
       (\<lambda>(prov, model).
          case map_of provider_map prov of
            None \<Rightarrow> Inl (Exn ValueError (''Unknown provider '' @ [CHR 0x27] @ prov @ [CHR 0x27] @ '' for pi-mono agent.''))
          | Some mapped \<Rightarrow>
              Inr \<lparr> provider = mapped,
                    pi_model =
                      normalize_model_id mapped
                        (if \<not> truthy (kw_pi_model kw) then
                           (case map_model_name model of
                              None \<Rightarrow> kw_pi_model kw
                            | Some m \<Rightarrow> Some m)
                         else kw_pi_model kw),
                    output_mode = (case kw_output_mode kw of None \<Rightarrow> ''json'' | Some m \<Rightarrow> m),
                    no_session = (case kw_no_session kw of None \<Rightarrow> False | Some b \<Rightarrow> b),
                    timeout_seconds =
                      (case kw_timeout_seconds kw of None \<Rightarrow> 1800 | Some t \<Rightarrow> t) \<rparr>)"

section \<open>FactoryDroidAgent: configuration\<close>

record droid_kwargs =
  kw_droid_model :: "string option"
  kw_reasoning_effort :: "string option"
  kw_droid_timeout_seconds :: "int option"

record droid_agent =
  auth_token :: "string option"
  droid_model :: string
  reasoning_effort :: string
  droid_timeout_seconds :: int
  last_instruction :: "string option"

definition model_id_map :: "(string \<times> string) list" where
  "model_id_map =
     [(''sonnet'', ''claude-sonnet-4-20250514''), (''opus'', ''claude-opus-4-1-20250805''),
      (''haiku'', ''claude-sonnet-4-20250514''), (''gpt-5'', ''gpt-5-codex''),
      (''gpt-5-codex'', ''gpt-5-codex''), (''gpt-5-high'', ''gpt-5-codex-high'')]"

definition droid_short_model :: "droid_kwargs \<Rightarrow> string option \<Rightarrow> string" where
  "droid_short_model kw model_name =
     (let short_model = (case kw_droid_model kw of None \<Rightarrow> ''sonnet'' | Some m \<Rightarrow> m) in
      case model_name of
        None \<Rightarrow> short_model
      | Some mn \<Rightarrow>
          if mn \<noteq> [] \<and> CHR ''/'' \<in> set mn then
            (let (prov, model) = split_once CHR ''/'' mn in
             if prov = ''anthropic'' then
               (if py_in ''haiku'' (lower model) then ''haiku''
                else if py_in ''opus'' (lower model) then ''opus''
                else if py_in ''sonnet'' (lower model) then ''sonnet''
                else short_model)
             else if prov = ''openai'' then
               (if py_in ''gpt-5'' (lower model) then ''gpt-5'' else short_model)
             else short_model)
          else short_model)"

text \<open>
  \<open>FactoryDroidAgent.__init__\<close> has no \<open>raise\<close>; its result is given the type of
  \<open>PiMonoAgent_init\<close> so that the two constructors can be compared. The first argument
  is the value of the environment variable \<open>FACTORY_AUTH_TOKEN\<close>.
\<close>

definition FactoryDroidAgent_init ::
  "string option \<Rightarrow> droid_kwargs \<Rightarrow> string option \<Rightarrow> exn + droid_agent" where
  "FactoryDroidAgent_init env_auth_token kw model_name =
     (let short_model = droid_short_model kw model_name in
      Inr \<lparr> auth_token = env_auth_token,
            droid_model =
              (case map_of model_id_map short_model of None \<Rightarrow> short_model | Some m \<Rightarrow> m),
            reasoning_effort =
              (case kw_reasoning_effort kw of None \<Rightarrow> ''medium'' | Some r \<Rightarrow> r),
            droid_timeout_seconds =
              (case kw_droid_timeout_seconds kw of None \<Rightarrow> 1800 | Some t \<Rightarrow> t),
            last_instruction = None \<rparr>)"

section \<open>Lines of a text file\<close>

text \<open>
  \<open>strip\<close> is \<open>str.strip()\<close>: it removes the characters Python counts as white space
  (on the range modelled) from both ends. \<open>readlines\<close> cuts a text after each line feed
  and keeps the line feed, as iterating over a file opened in text mode does;
  \<open>split_nl\<close> is \<open>s.split("\n")\<close>.
\<close>

definition is_space :: "char \<Rightarrow> bool" where
  "is_space c =
     (c \<in> set [CHR 0x09, CHR 0x0A, CHR 0x0B, CHR 0x0C, CHR 0x0D, CHR 0x1C, CHR 0x1D,
               CHR 0x1E, CHR 0x1F, CHR 0x20, CHR 0x85, CHR 0xA0])"

definition strip :: "string \<Rightarrow> string" where
  "strip s = rev (dropWhile is_space (rev (dropWhile is_space s)))"

fun readlines :: "string \<Rightarrow> string list" where
  "readlines [] = []"
| "readlines (c # cs) =
     (if c = CHR 0x0A then [c] # readlines cs
      else (case readlines cs of [] \<Rightarrow> [[c]] | l # ls \<Rightarrow> (c # l) # ls))"

fun split_nl :: "string \<Rightarrow> string list" where
  "split_nl [] = [[]]"
| "split_nl (c # cs) =
     (if c = CHR 0x0A then [] # split_nl cs
      else (case split_nl cs of [] \<Rightarrow> [[c]] | l # ls \<Rightarrow> (c # l) # ls))"

section \<open>The log directory\<close>

text \<open>
  The files under \<open>logs_dir\<close>, by their path relative to it. A file that exists is
  either read as text, or reading it raises (a directory, bytes that do not decode, a
  permission). \<open>open_read\<close> is \<open>open(path, 'r')\<close> followed by reading the file;
  \<open>path_exists\<close> is \<open>Path.exists()\<close>, taken not to raise.
\<close>

datatype log_file = Text string | Unreadable exn

type_synonym filesystem = "string \<Rightarrow> log_file option"

definition path_exists :: "filesystem \<Rightarrow> string \<Rightarrow> bool" where
  "path_exists fs p = (fs p \<noteq> None)"

definition open_read :: "filesystem \<Rightarrow> string \<Rightarrow> exn + string" where
  "open_read fs p =
     (case fs p of
        None \<Rightarrow> Inl (Exn OSError ''No such file or directory'')
      | Some (Unreadable e) \<Rightarrow> Inl e
      | Some (Text s) \<Rightarrow> Inr s)"

section \<open>JSON values and Python numbers\<close>

text \<open>
  What \<open>json.loads\<close> returns: \<open>JObj\<close> holds the items of a \<open>dict\<close>. A Python
  \<open>float\<close> is modelled as a real number: rounding, infinities and NaN are outside the
  model. \<open>json.loads\<close> itself and \<open>str\<close> of a decoded value belong to the Python
  library, not to this repository; the extractor takes them as the parameters
  \<open>json_loads\<close> and \<open>py_str\<close>.
\<close>

datatype json =
  JNull | JBool bool | JInt int | JFloat real | JStr string
  | JArr "json list" | JObj "(string \<times> json) list"

datatype pynum = PInt int | PFloat real

record pyenv =
  json_loads :: "string \<Rightarrow> exn + json"
  py_str :: "json \<Rightarrow> string"

fun num_val :: "pynum \<Rightarrow> real" where
  "num_val (PInt i) = of_int i"
| "num_val (PFloat r) = r"

fun type_name :: "json \<Rightarrow> string" where
  "type_name JNull = ''NoneType''"
| "type_name (JBool b) = ''bool''"
| "type_name (JInt i) = ''int''"
| "type_name (JFloat r) = ''float''"
| "type_name (JStr s) = ''str''"
| "type_name (JArr xs) = ''list''"
| "type_name (JObj kv) = ''dict''"

fun num_type_name :: "pynum \<Rightarrow> string" where
  "num_type_name (PInt i) = ''int''"
| "num_type_name (PFloat r) = ''float''"

definition no_attribute_get :: "json \<Rightarrow> exn" where
  "no_attribute_get v =
     Exn AttributeError
       ([CHR 0x27] @ type_name v @ [CHR 0x27] @ '' object has no attribute '' @
        [CHR 0x27] @ ''get'' @ [CHR 0x27])"

definition unsupported_operand :: "pynum \<Rightarrow> json \<Rightarrow> exn" where
  "unsupported_operand a v =
     Exn TypeError
       (''unsupported operand type(s) for +=: '' @ [CHR 0x27] @ num_type_name a @
        [CHR 0x27] @ '' and '' @ [CHR 0x27] @ type_name v @ [CHR 0x27])"

text \<open>\<open>total += v\<close> for a number \<open>total\<close> and a decoded value \<open>v\<close>.\<close>

fun py_add :: "pynum \<Rightarrow> json \<Rightarrow> exn + pynum" where
  "py_add (PInt a) (JInt b) = Inr (PInt (a + b))"
| "py_add (PInt a) (JBool b) = Inr (PInt (a + (if b then 1 else 0)))"
| "py_add (PInt a) (JFloat b) = Inr (PFloat (of_int a + b))"
| "py_add (PFloat a) (JInt b) = Inr (PFloat (a + of_int b))"
| "py_add (PFloat a) (JBool b) = Inr (PFloat (a + (if b then 1 else 0)))"
| "py_add (PFloat a) (JFloat b) = Inr (PFloat (a + b))"
| "py_add a v = Inl (unsupported_operand a v)"

definition dict_get :: "(string \<times> json) list \<Rightarrow> string \<Rightarrow> json \<Rightarrow> json" where
  "dict_get d k dflt = (case map_of d k of None \<Rightarrow> dflt | Some v \<Rightarrow> v)"

section \<open>The result record\<close>

datatype meta_value = MStr string | MBool bool | MInt int | MStrs "string list" | MNone

record agent_context =
  n_input_tokens :: "pynum option"
  n_output_tokens :: "pynum option"
  n_cache_tokens :: "pynum option"
  cost_usd :: "pynum option"
  metadata :: "(string \<times> meta_value) list option"

section \<open>PiMonoAgent: the usage extractor\<close>

record totals =
  total_input_tokens :: pynum
  total_output_tokens :: pynum
  total_cache_read_tokens :: pynum
  total_cache_write_tokens :: pynum
  total_cost :: pynum

definition zero_totals :: totals where
  "zero_totals =
     \<lparr> total_input_tokens = PInt 0, total_output_tokens = PInt 0,
       total_cache_read_tokens = PInt 0, total_cache_write_tokens = PInt 0,
       total_cost = PFloat 0 \<rparr>"

text \<open>Lines 341-354: one usage object added to the running totals.\<close>

definition add_usage :: "totals \<Rightarrow> json \<Rightarrow> exn + totals" where
  "add_usage t usage =
     (case usage of
        JObj u \<Rightarrow>
          exn_bind (py_add (total_input_tokens t) (dict_get u ''input'' (JInt 0))) (\<lambda>i.
          exn_bind (py_add (total_output_tokens t) (dict_get u ''output'' (JInt 0))) (\<lambda>out.
          exn_bind (py_add (total_cache_read_tokens t) (dict_get u ''cacheRead'' (JInt 0))) (\<lambda>cr.
          exn_bind (py_add (total_cache_write_tokens t) (dict_get u ''cacheWrite'' (JInt 0))) (\<lambda>cw.
          exn_bind
            (case map_of u ''cost'' of
               None \<Rightarrow> Inr (total_cost t)
             | Some (JObj c) \<Rightarrow> py_add (total_cost t) (dict_get c ''total'' (JInt 0))
             | Some v \<Rightarrow> py_add (total_cost t) v) (\<lambda>cost.
          Inr \<lparr> total_input_tokens = i, total_output_tokens = out,
                total_cache_read_tokens = cr, total_cache_write_tokens = cw,
                total_cost = cost \<rparr>)))))
      | _ \<Rightarrow> Inl (no_attribute_get usage))"

text \<open>
  Lines 336-339: the test for a \<open>message_end\<close> event of the assistant that carries
  usage. \<open>.get\<close> on a value that is not a \<open>dict\<close> raises \<open>AttributeError\<close>.
\<close>

definition process_event :: "totals \<Rightarrow> json \<Rightarrow> exn + totals" where
  "process_event t event =
     (case event of
        JObj e \<Rightarrow>
          if map_of e ''type'' \<noteq> Some (JStr ''message_end'') then Inr t
          else
            (case map_of e ''message'' of
               None \<Rightarrow> Inr t
             | Some (JObj m) \<Rightarrow>
                 if map_of m ''role'' \<noteq> Some (JStr ''assistant'') then Inr t
                 else (case map_of m ''usage'' of None \<Rightarrow> Inr t | Some usage \<Rightarrow> add_usage t usage)
             | Some other \<Rightarrow> Inl (no_attribute_get other))
      | _ \<Rightarrow> Inl (no_attribute_get event))"

text \<open>
  Lines 328-357: one line of the log. Only \<open>json.JSONDecodeError\<close> is caught here;
  any other exception leaves the loop.
\<close>

definition scan_line :: "pyenv \<Rightarrow> totals \<Rightarrow> string \<Rightarrow> exn + totals" where
  "scan_line env t raw =
     (let line = strip raw in
      if line = [] \<or> \<not> startswith line ''{'' then Inr t
      else
        (case json_loads env line of
           Inl e \<Rightarrow> if exn_kind_of e = JSONDecodeError then Inr t else Inl e
         | Inr event \<Rightarrow> process_event t event))"

fun scan_lines :: "pyenv \<Rightarrow> totals \<Rightarrow> string list \<Rightarrow> exn + totals" where
  "scan_lines env t [] = Inr t"
| "scan_lines env t (l # ls) = exn_bind (scan_line env t l) (\<lambda>t'. scan_lines env t' ls)"

text \<open>
  Lines 375-383: the characters of one line's assistant content. The bare \<open>except\<close>
  swallows every exception, so a line adds its content's length or nothing.
\<close>

definition role_assistant_marker :: string where
  "role_assistant_marker =
     [CHR 0x22] @ ''role'' @ [CHR 0x22] @ '':'' @ [CHR 0x22] @ ''assistant'' @ [CHR 0x22]"

definition content_marker :: string where
  "content_marker = [CHR 0x22] @ ''content'' @ [CHR 0x22]"

definition content_chars :: "pyenv \<Rightarrow> string \<Rightarrow> nat" where
  "content_chars env line =
     (if py_in role_assistant_marker line \<and> py_in content_marker line then
        (case json_loads env (strip line) of
           Inr (JObj e) \<Rightarrow>
             (case map_of e ''message'' of
                Some (JObj m) \<Rightarrow>
                  (case map_of m ''content'' of
                     Some content \<Rightarrow> length (py_str env content)
                   | None \<Rightarrow> 0)
              | _ \<Rightarrow> 0)
         | _ \<Rightarrow> 0)
      else 0)"

definition actual_content_chars :: "pyenv \<Rightarrow> string list \<Rightarrow> nat" where
  "actual_content_chars env lines = sum_list (map (content_chars env) lines)"

definition cost_per_1k_out :: "string \<Rightarrow> real" where
  "cost_per_1k_out prov =
     (case map_of [(''anthropic'', 0.015), (''openai'', 0.002), (''google'', 0.001),
                   (''groq'', 0.0)] prov of
        None \<Rightarrow> 0.002
      | Some r \<Rightarrow> r)"

text \<open>Lines 386-402: the fallback estimate written over the token counts and the cost.\<close>

definition fallback_estimate ::
  "pyenv \<Rightarrow> pi_agent \<Rightarrow> string list \<Rightarrow> agent_context \<Rightarrow> agent_context" where
  "fallback_estimate env a lines ctx =
     (let n_in = (500 :: int);
          n_out = max (int (actual_content_chars env lines) div 4) 100;
          per_out = cost_per_1k_out (provider a);
          per_in = per_out / 5
      in ctx\<lparr> n_input_tokens := Some (PInt n_in),
              n_output_tokens := Some (PInt n_out),
              cost_usd :=
                Some (PFloat ((of_int n_in / 1000) * per_in + (of_int n_out / 1000) * per_out)) \<rparr>)"

definition has_error_text :: "string \<Rightarrow> bool" where
  "has_error_text line = (py_in ''error'' (lower line) \<or> py_in ''failed'' (lower line))"

text \<open>Lines 405-406: \<open>[next(f, '') for _ in range(20)]\<close>.\<close>

definition first_lines :: "string \<Rightarrow> string list" where
  "first_lines text = take 20 (readlines text @ replicate 20 [])"

definition model_or_default :: "pi_agent \<Rightarrow> string" where
  "model_or_default a = (if truthy (pi_model a) then the (pi_model a) else ''default'')"

definition pi_error_metadata :: "pi_agent \<Rightarrow> string \<Rightarrow> (string \<times> meta_value) list" where
  "pi_error_metadata a msg =
     [(''error'', MStr msg), (''provider'', MStr (provider a)),
      (''model'', MStr (model_or_default a))]"

text \<open>
  Lines 359-424, what follows the scan inside the \<open>try\<close>. The context is mutated in
  place, so an exception leaves with the context as it stands at that point:
  \<open>Inl (e, ctx)\<close>. The final log line formats the cost, a \<open>float\<close>, and cannot raise.
\<close>

definition pi_record ::
  "pyenv \<Rightarrow> pi_agent \<Rightarrow> filesystem \<Rightarrow> string \<Rightarrow> agent_context \<Rightarrow> totals
     \<Rightarrow> (exn \<times> agent_context) + agent_context" where
  "pi_record env a fs output_file ctx t =
     (let ctx1 = ctx\<lparr> n_input_tokens := Some (total_input_tokens t),
                      n_output_tokens := Some (total_output_tokens t),
                      n_cache_tokens := Some (total_cache_read_tokens t),
                      cost_usd := Some (total_cost t) \<rparr>
      in
      case (if num_val (total_input_tokens t) = 0 \<and> num_val (total_output_tokens t) = 0
            then (case open_read fs output_file of
                    Inl e \<Rightarrow> Inl (e, ctx1)
                  | Inr text2 \<Rightarrow> Inr (fallback_estimate env a (readlines text2) ctx1))
            else Inr ctx1) of
        Inl x \<Rightarrow> Inl x
      | Inr ctx2 \<Rightarrow>
          (case open_read fs output_file of
             Inl e \<Rightarrow> Inl (e, ctx2)
           | Inr text3 \<Rightarrow>
               (let has_errors = list_ex has_error_text (first_lines text3) in
                Inr (ctx2\<lparr> metadata :=
                       Some [(''provider'', MStr (provider a)),
                             (''model'', MStr (model_or_default a)),
                             (''output_mode'', MStr (output_mode a)),
                             (''success'',
                                MBool (\<not> has_errors \<and> num_val (total_output_tokens t) > 0)),
                             (''session_saved'', MBool (\<not> no_session a)),
                             (''actual_api_usage'',
                                MBool (num_val (total_input_tokens t) > 0
                                       \<or> num_val (total_output_tokens t) > 0))] \<rparr>))))"

text \<open>The body of the \<open>try\<close> (lines 320-424): the scan, then the record.\<close>

definition pi_parse ::
  "pyenv \<Rightarrow> pi_agent \<Rightarrow> filesystem \<Rightarrow> string \<Rightarrow> agent_context
     \<Rightarrow> (exn \<times> agent_context) + agent_context" where
  "pi_parse env a fs output_file ctx =
     (case open_read fs output_file of
        Inl e \<Rightarrow> Inl (e, ctx)
      | Inr text \<Rightarrow>
          (case scan_lines env zero_totals (readlines text) of
             Inl e \<Rightarrow> Inl (e, ctx)
           | Inr t \<Rightarrow> pi_record env a fs output_file ctx t))"

definition pi_output_file :: "filesystem \<Rightarrow> string" where
  "pi_output_file fs =
     (if path_exists fs ''pi_output.log'' then ''pi_output.log''
      else ''command-1/pi_output.log'')"

definition pi_populate_context_post_run ::
  "pyenv \<Rightarrow> pi_agent \<Rightarrow> filesystem \<Rightarrow> agent_context \<Rightarrow> exn + agent_context" where
  "pi_populate_context_post_run env a fs ctx =
     (let output_file = pi_output_file fs in
      if \<not> path_exists fs output_file
      then Inr (ctx\<lparr> metadata := Some (pi_error_metadata a ''No output file found'') \<rparr>)
      else
        (case pi_parse env a fs output_file ctx of
           Inr ctx' \<Rightarrow> Inr ctx'
         | Inl (e, ctx') \<Rightarrow> Inr (ctx'\<lparr> metadata := Some (pi_error_metadata a (exn_str e)) \<rparr>)))"

section \<open>Decimal numerals\<close>

text \<open>\<open>str(n)\<close> of an \<open>int\<close>, as the f-strings of the command builders print it.\<close>

definition digit_char :: "nat \<Rightarrow> char" where
  "digit_char d = ''0123456789'' ! d"

function str_nat :: "nat \<Rightarrow> string" where
  "str_nat n = (if n < 10 then [digit_char n] else str_nat (n div 10) @ [digit_char (n mod 10)])"
  by pat_completeness auto
termination
  by (relation "measure id") auto

declare str_nat.simps [simp del]

definition str_int :: "int \<Rightarrow> string" where
  "str_int i = (if i < 0 then CHR ''-'' # str_nat (nat (- i)) else str_nat (nat i))"

section \<open>FactoryDroidAgent: the usage extractor\<close>

definition cost_per_1k_tokens :: "string \<Rightarrow> real" where
  "cost_per_1k_tokens model =
     (case map_of [(''sonnet'', 0.003), (''opus'', 0.015), (''haiku'', 0.0008),
                   (''GPT-5'', 0.01), (''droid-core'', 0.002)] model of
        None \<Rightarrow> 0.003
      | Some r \<Rightarrow> r)"

text \<open>
  Lines 339-388, after the log has been read: nothing here can raise. The final log line
  formats the cost only when it is not \<open>None\<close>.
\<close>

definition droid_metrics :: "droid_agent \<Rightarrow> string \<Rightarrow> agent_context \<Rightarrow> agent_context" where
  "droid_metrics a output_content ctx =
     (let lines = split_nl output_content;
          char_count = int (length output_content);
          estimated_tokens = char_count div 4;
          approx_input_tokens =
            (if truthy (last_instruction a)
             then Some (max (int (length (the (last_instruction a))) div 4) 1)
             else None);
          out_tokens = (if estimated_tokens > 0 then Some estimated_tokens else None);
          rate = cost_per_1k_tokens (droid_model a);
          total_tokens =
            (case approx_input_tokens of None \<Rightarrow> 0 | Some i \<Rightarrow> i) +
            (case out_tokens of None \<Rightarrow> 0 | Some k \<Rightarrow> k);
          success = py_in ''Factory Droid Session Complete'' output_content;
          error_lines = filter has_error_text lines
      in ctx\<lparr> n_input_tokens := map_option PInt approx_input_tokens,
              n_output_tokens := map_option PInt out_tokens,
              cost_usd :=
                (if total_tokens \<noteq> 0 then Some (PFloat ((of_int total_tokens / 1000) * rate))
                 else None),
              metadata :=
                Some [(''droid_model'', MStr (droid_model a)),
                      (''reasoning_effort'', MStr (reasoning_effort a)),
                      (''success'', MBool success),
                      (''output_lines'', MInt (int (length lines))),
                      (''errors'',
                         if error_lines \<noteq> [] then MStrs (take 5 error_lines) else MNone)] \<rparr>)"

text \<open>
  Lines 405-416, the branch taken when the log is missing: the files
  \<open>command-i/stdout.txt\<close> are opened and read outside any \<open>try\<close>.
\<close>

definition command_stdout :: "nat \<Rightarrow> string" where
  "command_stdout i = ''command-'' @ str_nat i @ ''/stdout.txt''"

fun droid_command_outputs ::
  "droid_agent \<Rightarrow> filesystem \<Rightarrow> nat list \<Rightarrow> agent_context \<Rightarrow> exn + agent_context" where
  "droid_command_outputs a fs [] ctx = Inr ctx"
| "droid_command_outputs a fs (i # rest) ctx =
     (let cmd_output = command_stdout i in
      if path_exists fs cmd_output then
        (case open_read fs cmd_output of
           Inl e \<Rightarrow> Inl e
         | Inr content \<Rightarrow>
             if content \<noteq> [] then
               Inr (ctx\<lparr> metadata :=
                      Some [(''error'', MStr ''No main output file''),
                            (''command_output_sample'', MStr (take 500 content)),
                            (''droid_model'', MStr (droid_model a))] \<rparr>)
             else droid_command_outputs a fs rest ctx)
      else droid_command_outputs a fs rest ctx)"

definition droid_populate_context_post_run ::
  "droid_agent \<Rightarrow> filesystem \<Rightarrow> agent_context \<Rightarrow> exn + agent_context" where
  "droid_populate_context_post_run a fs ctx =
     (let output_file = ''command-2/droid_output.log'' in
      if path_exists fs output_file then
        (case open_read fs output_file of
           Inr output_content \<Rightarrow> Inr (droid_metrics a output_content ctx)
         | Inl e \<Rightarrow>
             Inr (ctx\<lparr> metadata :=
                    Some [(''error'', MStr (exn_str e)),
                          (''droid_model'', MStr (droid_model a))] \<rparr>))
      else droid_command_outputs a fs [0 ..< 5] ctx)"

section \<open>The command builders\<close>

text \<open>
  \<open>shlex.quote\<close> of the Python library: the empty string becomes two single quotes, a
  string of safe characters (ASCII letters, digits and \<open>_@%+=:,./-\<close>) is returned as
  it is, and any other string is put between single quotes with each single quote of it
  replaced by \<open>'"'"'\<close>. \<open>join\<close> is \<open>sep.join(parts)\<close>.
\<close>

definition shlex_safe_char :: "char \<Rightarrow> bool" where
  "shlex_safe_char c =
     (c \<in> set (''abcdefghijklmnopqrstuvwxyzABCDEFGHIJKLMNOPQRSTUVWXYZ'' @
               ''0123456789_@%+=:,./-''))"

definition shlex_quote :: "string \<Rightarrow> string" where
  "shlex_quote s =
     (if s = [] then sq @ sq
      else if list_all shlex_safe_char s then s
      else sq @ concat (map (\<lambda>c. if c = CHR 0x27 then sq @ dq @ sq @ dq @ sq else [c]) s) @ sq)"

fun join :: "string \<Rightarrow> string list \<Rightarrow> string" where
  "join sep [] = []"
| "join sep [x] = x"
| "join sep (x # y # ys) = x @ sep @ join sep (y # ys)"

text \<open>
  \<open>create_run_agent_commands\<close>: the \<open>command\<close> string of each \<open>ExecInput\<close>, in
  order. The environment variables, working directory and time limit of the
  \<open>ExecInput\<close> are not part of the model.
\<close>

definition pi_extract_command :: string where
  "pi_extract_command =
     ''if [ -f /logs/agent/pi_output.log ]; then   echo '' @ sq @
       ''=== Extracting JSON results ==='' @ sq @ '' &&   python3 -c '' @ dq @
       ''import json, sys; lines = open('' @ sq @ ''/logs/agent/pi_output.log'' @ sq @
       '').readlines(); json_lines = [l for l in lines if '' @
       ''l.strip().startswith('' @ sq @ ''{'' @ sq @
       '')]; if json_lines:   data = json.loads(json_lines[-1]); '' @
       ''  json.dump(data, open('' @ sq @ ''/logs/agent/results.json'' @ sq @ '', '' @
       sq @ ''w'' @ sq @ ''), indent=2);   print('' @ sq @
       ''Results saved to results.json'' @ sq @ '')'' @ dq @
       '' 2>/dev/null || echo '' @ sq @ ''Could not parse JSON output'' @ sq @ ''; fi''"

definition pi_final_command :: string where
  "pi_final_command =
     ''echo '' @ sq @ ''=== Pi-Mono Session Complete ==='' @ sq @
       '' && ls -la /workspace && git status 2>/dev/null || true''"

definition droid_check_command :: string where
  "droid_check_command =
     ''echo '' @ sq @ ''Checking Factory Droid authentication...'' @ sq @
       '' && if [ -f ~/.factory/auth.json ]; then   echo '' @ sq @
       ''Auth file found'' @ sq @ ''; else   echo '' @ sq @
       ''WARNING: No auth file found. Factory Droid may fail.'' @ sq @ '';   echo '' @
       sq @ ''To authenticate: run droid on host machine first, or '' @
       ''set FACTORY_AUTH_TOKEN'' @ sq @ ''; fi''"

definition droid_final_command :: string where
  "droid_final_command =
     ''echo '' @ sq @ ''=== Factory Droid Session Complete ==='' @ sq @
       '' && ls -la /workspace && git status 2>/dev/null || true''"

definition droid_main_tail :: string where
  "droid_main_tail =
     '' 2>&1 | tee /logs/agent/droid_output.log || echo '' @ sq @
       ''Factory Droid failed - likely due to authentication '' @ ''requirements'' @ sq"

text \<open>Lines 220-234: the words of the pi command before the instruction.\<close>

definition pi_option_parts :: "pi_agent \<Rightarrow> string list" where
  "pi_option_parts a =
     [''pi''] @
     (if provider a \<noteq> [] then [''--provider'', provider a] else []) @
     (if truthy (pi_model a) then [''--model'', the (pi_model a)] else []) @
     [''--mode'', output_mode a] @
     (if no_session a then [''--no-session''] else [])"

definition pi_command_parts :: "pi_agent \<Rightarrow> string \<Rightarrow> string list" where
  "pi_command_parts a instruction = pi_option_parts a @ [shlex_quote instruction]"

definition pi_main_command :: "pi_agent \<Rightarrow> string \<Rightarrow> string" where
  "pi_main_command a instruction =
     ''cd /workspace && '' @ ''timeout '' @ str_int (timeout_seconds a) @ '' '' @
     join '' '' (pi_command_parts a instruction) @ '' '' @
     ''2>&1 | tee /logs/agent/pi_output.log''"

definition pi_create_run_agent_commands :: "pi_agent \<Rightarrow> string \<Rightarrow> string list" where
  "pi_create_run_agent_commands a instruction =
     [''mkdir -p /logs/agent/pi_session'', pi_main_command a instruction] @
     (if output_mode a = ''json'' then [pi_extract_command] else []) @
     [pi_final_command]"

text \<open>Lines 264-280: the words of the droid command before the instruction.\<close>

definition droid_option_parts :: "droid_agent \<Rightarrow> string list" where
  "droid_option_parts a =
     [''droid'', ''exec''] @ [''-m'', droid_model a] @
     (if reasoning_effort a \<noteq> [] \<and> reasoning_effort a \<noteq> ''off''
      then [''-r'', reasoning_effort a] else []) @
     [''--auto'',
      (if reasoning_effort a \<noteq> [] \<and> reasoning_effort a \<noteq> ''off''
       then reasoning_effort a else ''high'')]"

definition droid_main_command :: "droid_agent \<Rightarrow> string \<Rightarrow> string" where
  "droid_main_command a instruction =
     ''timeout '' @ str_int (droid_timeout_seconds a) @ '' '' @
     join '' '' (droid_option_parts a @ [shlex_quote instruction]) @ droid_main_tail"

text \<open>The builder also remembers the instruction, for the usage extractor.\<close>

definition droid_create_run_agent_commands ::
  "droid_agent \<Rightarrow> string \<Rightarrow> droid_agent \<times> string list" where
  "droid_create_run_agent_commands a instruction =
     (a\<lparr> last_instruction := Some instruction \<rparr>,
      [''mkdir -p /logs/agent/droid_session'', droid_check_command,
       droid_main_command a instruction, droid_final_command])"

section \<open>Shell words\<close>

text \<open>
  Token recognition and quote removal of the POSIX shell (Shell Command Language,
  sections 2.2 and 2.3), as far as the command lines above need them: blanks separate
  tokens, operator characters form operators, a backslash quotes the next character,
  single quotes quote everything up to the next single quote, double quotes quote
  everything but \<open>$\<close>, the backquote and the backslash. A \<open>Word\<close> is a word after
  quote removal, that is the argument a command receives. The result is \<open>None\<close> for an
  unterminated quotation and for what this model does not interpret: expansions
  (\<open>$\<close>, backquote, \<open>~\<close>), patterns (\<open>*\<close>, \<open>?\<close>, \<open>[\<close>) outside single quotes, and
  here-documents. An IO number such as the \<open>2\<close> of \<open>2>&1\<close> is reported as a word.
\<close>

datatype sh_token = Word string | Op string | Newline

datatype sh_mode = Unquoted | SingleQuoted | DoubleQuoted | Comment

definition flush :: "string option \<Rightarrow> sh_token list \<Rightarrow> sh_token list" where
  "flush cur toks = (case cur of None \<Rightarrow> toks | Some w \<Rightarrow> Word w # toks)"

definition open_word :: "string option \<Rightarrow> string option" where
  "open_word cur = Some (case cur of None \<Rightarrow> [] | Some w \<Rightarrow> w)"

definition add_char :: "string option \<Rightarrow> char \<Rightarrow> string option" where
  "add_char cur c = Some ((case cur of None \<Rightarrow> [] | Some w \<Rightarrow> w) @ [c])"

definition operator_char :: "char \<Rightarrow> bool" where
  "operator_char c = (c \<in> set ''|&;<>()'')"

definition two_char_operators :: "string list" where
  "two_char_operators = [''&&'', ''||'', '';;'', ''>>'', ''<&'', ''>&'', ''<>'', ''>|'']"

definition uninterpreted_char :: "char \<Rightarrow> bool" where
  "uninterpreted_char c = (c \<in> set [CHR ''$'', CHR 0x60, CHR ''*'', CHR ''?'', CHR ''['', CHR ''~''])"

fun sh_lex :: "sh_mode \<Rightarrow> string option \<Rightarrow> string \<Rightarrow> sh_token list option" where
  "sh_lex Unquoted cur [] = Some (flush cur [])"
| "sh_lex Comment cur [] = Some []"
| "sh_lex SingleQuoted cur [] = None"
| "sh_lex DoubleQuoted cur [] = None"
| "sh_lex SingleQuoted cur (c # cs) =
     (if c = CHR 0x27 then sh_lex Unquoted cur cs
      else sh_lex SingleQuoted (add_char cur c) cs)"
| "sh_lex DoubleQuoted cur (c # cs) =
     (if c = CHR 0x22 then sh_lex Unquoted cur cs
      else if c = CHR ''$'' \<or> c = CHR 0x60 then None
      else if c = CHR 0x5C then
        (case cs of
           [] \<Rightarrow> None
         | d # ds \<Rightarrow>
             if d \<in> set [CHR ''$'', CHR 0x60, CHR 0x22, CHR 0x5C]
               then sh_lex DoubleQuoted (add_char cur d) ds
             else if d = CHR 0x0A then sh_lex DoubleQuoted cur ds
             else sh_lex DoubleQuoted (add_char (add_char cur c) d) ds)
      else sh_lex DoubleQuoted (add_char cur c) cs)"
| "sh_lex Comment cur (c # cs) =
     (if c = CHR 0x0A then map_option (Cons Newline) (sh_lex Unquoted None cs)
      else sh_lex Comment cur cs)"
| "sh_lex Unquoted cur (c # cs) =
     (if c = CHR '' '' \<or> c = CHR 0x09 then map_option (flush cur) (sh_lex Unquoted None cs)
      else if c = CHR 0x0A
        then map_option (\<lambda>ts. flush cur (Newline # ts)) (sh_lex Unquoted None cs)
      else if c = CHR 0x27 then sh_lex SingleQuoted (open_word cur) cs
      else if c = CHR 0x22 then sh_lex DoubleQuoted (open_word cur) cs
      else if c = CHR 0x5C then
        (case cs of
           [] \<Rightarrow> None
         | d # ds \<Rightarrow>
             if d = CHR 0x0A then sh_lex Unquoted cur ds
             else sh_lex Unquoted (add_char cur d) ds)
      else if operator_char c then
        (case cs of
           [] \<Rightarrow> Some (flush cur [Op [c]])
         | d # ds \<Rightarrow>
             if [c, d] = ''<<'' then None
             else if [c, d] \<in> set two_char_operators
               then map_option (\<lambda>ts. flush cur (Op [c, d] # ts)) (sh_lex Unquoted None ds)
             else map_option (\<lambda>ts. flush cur (Op [c] # ts)) (sh_lex Unquoted None cs))
      else if c = CHR ''#'' \<and> cur = None then sh_lex Comment None cs
      else if uninterpreted_char c then None
      else sh_lex Unquoted (add_char cur c) cs)"

definition shell_words :: "string \<Rightarrow> sh_token list option" where
  "shell_words command = sh_lex Unquoted None command"

definition plain_word :: "string \<Rightarrow> bool" where
  "plain_word w = (w \<noteq> [] \<and> list_all shlex_safe_char w)"

section \<open>Usage events of a transcript\<close>

text \<open>
  The usage object of a line, when the line decodes to a \<open>message_end\<close> event of the
  assistant that carries one: the events the scan accumulates. \<open>json_num\<close> is the value
  a decoded number adds to a total.
\<close>

definition line_usage :: "pyenv \<Rightarrow> string \<Rightarrow> json option" where
  "line_usage env raw =
     (let line = strip raw in
      if line = [] \<or> \<not> startswith line ''{'' then None
      else
        (case json_loads env line of
           Inr (JObj e) \<Rightarrow>
             if map_of e ''type'' = Some (JStr ''message_end'') then
               (case map_of e ''message'' of
                  Some (JObj m) \<Rightarrow>
                    if map_of m ''role'' = Some (JStr ''assistant'') then map_of m ''usage''
                    else None
                | _ \<Rightarrow> None)
             else None
         | _ \<Rightarrow> None))"

definition usage_events :: "pyenv \<Rightarrow> string list \<Rightarrow> json list" where
  "usage_events env lines = List.map_filter (line_usage env) lines"

fun json_num :: "json \<Rightarrow> real" where
  "json_num (JInt i) = of_int i"
| "json_num (JFloat r) = r"
| "json_num (JBool b) = (if b then 1 else 0)"
| "json_num v = 0"

definition usage_field :: "string \<Rightarrow> json \<Rightarrow> real" where
  "usage_field k usage =
     (case usage of JObj u \<Rightarrow> json_num (dict_get u k (JInt 0)) | _ \<Rightarrow> 0)"

fun cost_value :: "json \<Rightarrow> real" where
  "cost_value (JObj c) = json_num (dict_get c ''total'' (JInt 0))"
| "cost_value v = json_num v"

definition usage_cost :: "json \<Rightarrow> real" where
  "usage_cost usage =
     (case usage of
        JObj u \<Rightarrow> (case map_of u ''cost'' of None \<Rightarrow> 0 | Some c \<Rightarrow> cost_value c)
      | _ \<Rightarrow> 0)"

definition cost_fields :: "json list \<Rightarrow> json list" where
  "cost_fields usages =
     List.map_filter (\<lambda>usage. case usage of JObj u \<Rightarrow> map_of u ''cost'' | _ \<Rightarrow> None) usages"

definition usage_nonneg :: "json \<Rightarrow> bool" where
  "usage_nonneg usage =
     (0 \<le> usage_field ''input'' usage \<and> 0 \<le> usage_field ''output'' usage \<and>
      0 \<le> usage_field ''cacheRead'' usage \<and> 0 \<le> usage_field ''cacheWrite'' usage \<and>
      0 \<le> usage_cost usage)"

definition num_nonneg :: "pynum option \<Rightarrow> bool" where
  "num_nonneg v = (case v of None \<Rightarrow> True | Some n \<Rightarrow> 0 \<le> num_val n)"

definition record_nonneg :: "agent_context \<Rightarrow> bool" where
  "record_nonneg ctx =
     (num_nonneg (n_input_tokens ctx) \<and> num_nonneg (n_output_tokens ctx) \<and>
      num_nonneg (n_cache_tokens ctx) \<and> num_nonneg (cost_usd ctx))"

section \<open>The record after a completed scan\<close>

text \<open>
  What lines 359-417 leave in the context when the log reads as \<open>text\<close> and the scan
  returned the totals \<open>t\<close>: the closed form of \<open>pi_record\<close> for a readable log.
\<close>

definition pi_scanned_record ::
  "pyenv \<Rightarrow> pi_agent \<Rightarrow> string \<Rightarrow> agent_context \<Rightarrow> totals \<Rightarrow> agent_context" where
  "pi_scanned_record env a text ctx t =
     (let ctx1 = ctx\<lparr> n_input_tokens := Some (total_input_tokens t),
                      n_output_tokens := Some (total_output_tokens t),
                      n_cache_tokens := Some (total_cache_read_tokens t),
                      cost_usd := Some (total_cost t) \<rparr>;
          ctx2 = (if num_val (total_input_tokens t) = 0 \<and> num_val (total_output_tokens t) = 0
                  then fallback_estimate env a (readlines text) ctx1 else ctx1)
      in ctx2\<lparr> metadata :=
                 Some [(''provider'', MStr (provider a)),
                       (''model'', MStr (model_or_default a)),
                       (''output_mode'', MStr (output_mode a)),
                       (''success'',
                          MBool (\<not> list_ex has_error_text (first_lines text)
                                 \<and> num_val (total_output_tokens t) > 0)),
                       (''session_saved'', MBool (\<not> no_session a)),
                       (''actual_api_usage'',
                          MBool (num_val (total_input_tokens t) > 0
                                 \<or> num_val (total_output_tokens t) > 0))] \<rparr>)"

section \<open>Sample inputs\<close>

text \<open>
  A context as Harbor hands it over, agents as the constructors build them from
  their defaults, and a decoder given by a table of the lines it decodes (every other
  text is refused with \<open>JSONDecodeError\<close>).
\<close>

definition empty_context :: agent_context where
  "empty_context =
     \<lparr> n_input_tokens = None, n_output_tokens = None, n_cache_tokens = None,
       cost_usd = None, metadata = None \<rparr>"

definition sample_pi_agent :: pi_agent where
  "sample_pi_agent =
     \<lparr> provider = ''openai'', pi_model = Some ''gpt-4o'', output_mode = ''json'',
       no_session = False, timeout_seconds = 1800 \<rparr>"

definition sample_droid_agent :: droid_agent where
  "sample_droid_agent =
     \<lparr> auth_token = None, droid_model = ''claude-sonnet-4-20250514'',
       reasoning_effort = ''medium'', droid_timeout_seconds = 1800,
       last_instruction = Some ''fix it'' \<rparr>"

definition table_env :: "(string \<times> json) list \<Rightarrow> pyenv" where
  "table_env tbl =
     \<lparr> json_loads =
         (\<lambda>s. case map_of tbl s of
                 None \<Rightarrow> Inl (Exn JSONDecodeError ''Expecting value'')
               | Some v \<Rightarrow> Inr v),
       py_str = (\<lambda>v. case v of JStr s \<Rightarrow> s | _ \<Rightarrow> []) \<rparr>"

definition single_file :: "string \<Rightarrow> log_file \<Rightarrow> filesystem" where
  "single_file p f = (\<lambda>q. if q = p then Some f else None)"

definition usage_event :: "(string \<times> json) list \<Rightarrow> json" where
  "usage_event u =
     JObj [(''type'', JStr ''message_end''),
           (''message'', JObj [(''role'', JStr ''assistant''), (''usage'', JObj u)])]"

definition line_usage_bare_cost :: string where
  "line_usage_bare_cost =
     ''{'' @ dq @ ''type'' @ dq @ '':'' @ dq @ ''message_end'' @ dq @ '','' @ dq @
       ''message'' @ dq @ '':{'' @ dq @ ''role'' @ dq @ '':'' @ dq @ ''assistant'' @ dq @
       '','' @ dq @ ''usage'' @ dq @ '':{'' @ dq @ ''input'' @ dq @ '':10,'' @ dq @
       ''output'' @ dq @ '':5,'' @ dq @ ''cacheRead'' @ dq @ '':7,'' @ dq @
       ''cacheWrite'' @ dq @ '':9,'' @ dq @ ''cost'' @ dq @ '':0.02}}}''"

definition line_usage_total_cost :: string where
  "line_usage_total_cost =
     ''{'' @ dq @ ''type'' @ dq @ '':'' @ dq @ ''message_end'' @ dq @ '','' @ dq @
       ''message'' @ dq @ '':{'' @ dq @ ''role'' @ dq @ '':'' @ dq @ ''assistant'' @ dq @
       '','' @ dq @ ''usage'' @ dq @ '':{'' @ dq @ ''input'' @ dq @ '':1,'' @ dq @
       ''output'' @ dq @ '':2,'' @ dq @ ''cost'' @ dq @ '':{'' @ dq @ ''total'' @ dq @
       '':0.03}}}}''"

definition line_bare_cost_only :: string where
  "line_bare_cost_only =
     ''{'' @ dq @ ''type'' @ dq @ '':'' @ dq @ ''message_end'' @ dq @ '','' @ dq @
       ''message'' @ dq @ '':{'' @ dq @ ''role'' @ dq @ '':'' @ dq @ ''assistant'' @ dq @
       '','' @ dq @ ''usage'' @ dq @ '':{'' @ dq @ ''cost'' @ dq @ '':0.02}}}''"

definition line_total_cost_only :: string where
  "line_total_cost_only =
     ''{'' @ dq @ ''type'' @ dq @ '':'' @ dq @ ''message_end'' @ dq @ '','' @ dq @
       ''message'' @ dq @ '':{'' @ dq @ ''role'' @ dq @ '':'' @ dq @ ''assistant'' @ dq @
       '','' @ dq @ ''usage'' @ dq @ '':{'' @ dq @ ''cost'' @ dq @ '':{'' @ dq @
       ''total'' @ dq @ '':0.03}}}}''"

definition line_message_not_dict :: string where
  "line_message_not_dict =
     ''{'' @ dq @ ''type'' @ dq @ '':'' @ dq @ ''message_end'' @ dq @ '','' @ dq @
       ''message'' @ dq @ '':'' @ dq @ ''x'' @ dq @ ''}''"

definition line_negative_input :: string where
  "line_negative_input =
     ''{'' @ dq @ ''type'' @ dq @ '':'' @ dq @ ''message_end'' @ dq @ '','' @ dq @
       ''message'' @ dq @ '':{'' @ dq @ ''role'' @ dq @ '':'' @ dq @ ''assistant'' @ dq @
       '','' @ dq @ ''usage'' @ dq @ '':{'' @ dq @ ''input'' @ dq @ '':-5,'' @ dq @
       ''output'' @ dq @ '':3}}}''"

definition line_assistant_content :: string where
  "line_assistant_content =
     ''{'' @ dq @ ''type'' @ dq @ '':'' @ dq @ ''message_update'' @ dq @ '','' @ dq @
       ''message'' @ dq @ '':{'' @ dq @ ''role'' @ dq @ '':'' @ dq @ ''assistant'' @ dq @
       '','' @ dq @ ''content'' @ dq @ '':'' @ dq @ ''hello world'' @ dq @ ''}}''"

definition sample_env :: pyenv where
  "sample_env =
     table_env
       [(line_usage_bare_cost,
           usage_event [(''input'', JInt 10), (''output'', JInt 5), (''cacheRead'', JInt 7),
                        (''cacheWrite'', JInt 9), (''cost'', JFloat 0.02)]),
        (line_usage_total_cost,
           usage_event [(''input'', JInt 1), (''output'', JInt 2),
                        (''cost'', JObj [(''total'', JFloat 0.03)])]),
        (line_bare_cost_only, usage_event [(''cost'', JFloat 0.02)]),
        (line_total_cost_only, usage_event [(''cost'', JObj [(''total'', JFloat 0.03)])]),
        (line_message_not_dict,
           JObj [(''type'', JStr ''message_end''), (''message'', JStr ''x'')]),
        (line_negative_input, usage_event [(''input'', JInt (- 5)), (''output'', JInt 3)]),
        (line_assistant_content,
           JObj [(''type'', JStr ''message_update''),
                 (''message'', JObj [(''role'', JStr ''assistant''),
                                     (''content'', JStr ''hello world'')])])]"

text \<open>A transcript is its lines, each ended by a line feed.\<close>

definition transcript :: "string list \<Rightarrow> string" where
  "transcript lines = concat (map (\<lambda>l. l @ [CHR 0x0A]) lines)"

text \<open>An instruction with every kind of quote and some shell metacharacters.\<close>

definition tricky_instruction :: string where
  "tricky_instruction =
     ''say '' @ sq @ ''hi'' @ sq @ '' and '' @ dq @ ''bye'' @ dq @ '' then `date`; rm -rf $HOME''"

section \<open>Properties\<close>

subsection \<open>Agent configuration\<close>

lemma split_once_append:
  "sep \<notin> set p \<Longrightarrow> split_once sep (p @ sep # r) = (p, r)"
  by (induction p) (auto simp: split_once_def)

lemma split_once_fst_no_sep: "sep \<notin> set (fst (split_once sep s))"
  by (auto simp: split_once_def dest: set_takeWhileD)

text \<open>
  Claim C9. Constructing \<open>PiMonoAgent\<close> with the provider \<open>openai\<close> passed
  explicitly and the model string \<open>openai/gpt-5.1-codex\<close> (no \<open>pi_model\<close> override,
  any other options) leaves the pi model \<open>gpt-5.1-codex\<close>. In general
  \<open>_normalize_model_id\<close> returns \<open>None\<close> and a model without a slash unchanged,
  and for a model \<open>prefix/rest\<close> returns \<open>rest\<close> exactly when \<open>prefix\<close> and
  the provider are equal after lowercasing, and the model unchanged otherwise.
\<close>

theorem normalize_model_id_strips_own_provider:
  "(\<exists>a. PiMonoAgent_init
          \<lparr> kw_provider = Some ''openai'', kw_pi_model = None, kw_output_mode = om,
            kw_no_session = ns, kw_timeout_seconds = ts \<rparr>
          (Some ''openai/gpt-5.1-codex'') = Inr a
        \<and> provider a = ''openai'' \<and> pi_model a = Some ''gpt-5.1-codex'')
   \<and> normalize_model_id prov None = None
   \<and> (CHR ''/'' \<notin> set m \<longrightarrow> normalize_model_id prov (Some m) = Some m)
   \<and> (CHR ''/'' \<notin> set prefix \<longrightarrow>
        normalize_model_id prov (Some (prefix @ ''/'' @ rest)) =
          (if lower prefix = lower prov then Some rest else Some (prefix @ ''/'' @ rest)))"
proof (intro conjI impI)
  show "\<exists>a. PiMonoAgent_init
          \<lparr> kw_provider = Some ''openai'', kw_pi_model = None, kw_output_mode = om,
            kw_no_session = ns, kw_timeout_seconds = ts \<rparr>
          (Some ''openai/gpt-5.1-codex'') = Inr a
        \<and> provider a = ''openai'' \<and> pi_model a = Some ''gpt-5.1-codex''"
    by (simp add: PiMonoAgent_init_def exn_bind_def truthy_def split_once_def provider_map_def
        map_model_name_def lower_def lower_char_def normalize_model_id_def)
  show "normalize_model_id prov None = None"
    by (simp add: normalize_model_id_def)
  show "normalize_model_id prov (Some m) = Some m" if "CHR ''/'' \<notin> set m"
    using that by (simp add: normalize_model_id_def)
  show "normalize_model_id prov (Some (prefix @ ''/'' @ rest)) =
          (if lower prefix = lower prov then Some rest else Some (prefix @ ''/'' @ rest))"
    if "CHR ''/'' \<notin> set prefix"
    using split_once_append[OF that, of rest] by (simp add: normalize_model_id_def)
qed

text \<open>The statement at concrete models, with the hypotheses discharged.\<close>

theorem normalize_model_id_strips_own_provider_witness:
  "CHR ''/'' \<notin> set ''gpt-4o'' \<and> normalize_model_id ''openai'' (Some ''gpt-4o'') = Some ''gpt-4o''
   \<and> CHR ''/'' \<notin> set ''OpenAI''
   \<and> normalize_model_id ''openai'' (Some ''OpenAI/gpt-5.1-codex'') = Some ''gpt-5.1-codex''
   \<and> normalize_model_id ''openai'' (Some ''groq/llama-3'') = Some ''groq/llama-3''"
  using normalize_model_id_strips_own_provider [of None None None "''openai''" "''gpt-4o''" "''OpenAI''" "''gpt-5.1-codex''"]
    normalize_model_id_strips_own_provider [of None None None "''openai''" "''gpt-4o''" "''groq''" "''llama-3''"]
  by (simp add: lower_def lower_char_def)

text \<open>
  Claim C5, as the code has it. \<open>PiMonoAgent.__init__\<close> raises \<open>ValueError\<close>
  whenever the provider it resolved (the \<open>provider\<close> option when it is non-empty,
  otherwise the part of the model name before the first slash) is not a key of its
  provider map, so every agent it returns has a recognized provider.
  \<open>FactoryDroidAgent.__init__\<close> checks no provider and always returns an agent.
\<close>

theorem unknown_provider_rejected_by_pi_only:
  "(truthy (kw_provider kw) \<and> map_of provider_map (the (kw_provider kw)) = None \<longrightarrow>
      PiMonoAgent_init kw model_name =
        Inl (Exn ValueError (''Unknown provider '' @ [CHR 0x27] @ the (kw_provider kw) @ [CHR 0x27]
                              @ '' for pi-mono agent.'')))
   \<and> (\<not> truthy (kw_provider kw) \<and> CHR ''/'' \<in> set mn
        \<and> map_of provider_map (fst (split_once CHR ''/'' mn)) = None \<longrightarrow>
      PiMonoAgent_init kw (Some mn) =
        Inl (Exn ValueError (''Unknown provider '' @ [CHR 0x27] @ fst (split_once CHR ''/'' mn)
                              @ [CHR 0x27] @ '' for pi-mono agent.'')))
   \<and> (PiMonoAgent_init kw model_name = Inr a \<longrightarrow> provider a \<in> fst ` set provider_map)
   \<and> (\<exists>d. FactoryDroidAgent_init tok dkw model_name = Inr d)"
proof (intro conjI impI)
  show "PiMonoAgent_init kw model_name =
        Inl (Exn ValueError (''Unknown provider '' @ [CHR 0x27] @ the (kw_provider kw) @ [CHR 0x27]
                              @ '' for pi-mono agent.''))"
    if "truthy (kw_provider kw) \<and> map_of provider_map (the (kw_provider kw)) = None"
    using that by (simp add: PiMonoAgent_init_def exn_bind_def)
  show "PiMonoAgent_init kw (Some mn) =
        Inl (Exn ValueError (''Unknown provider '' @ [CHR 0x27] @ fst (split_once CHR ''/'' mn)
                              @ [CHR 0x27] @ '' for pi-mono agent.''))"
    if "\<not> truthy (kw_provider kw) \<and> CHR ''/'' \<in> set mn
        \<and> map_of provider_map (fst (split_once CHR ''/'' mn)) = None"
  proof -
    from that have "mn \<noteq> []" by auto
    with that show ?thesis
      by (cases "split_once CHR ''/'' mn") (simp add: PiMonoAgent_init_def exn_bind_def)
  qed
  show "provider a \<in> fst ` set provider_map" if "PiMonoAgent_init kw model_name = Inr a"
  proof -
    from that obtain prov mapped where m: "map_of provider_map prov = Some mapped"
      and p: "provider a = mapped"
      by (auto simp: PiMonoAgent_init_def exn_bind_def split: sum.splits option.splits if_splits prod.splits)
    from m have "(prov, mapped) \<in> set provider_map" by (rule map_of_SomeD)
    then have "mapped \<in> fst ` set provider_map"
      by (auto simp: provider_map_def)
    with p show ?thesis by simp
  qed
  show "\<exists>d. FactoryDroidAgent_init tok dkw model_name = Inr d"
    by (simp add: FactoryDroidAgent_init_def Let_def)
qed

text \<open>The statement at the provider \<open>acme\<close>, passed as an option and inside the model name.\<close>

theorem unknown_provider_rejected_by_pi_only_witness:
  "PiMonoAgent_init
      \<lparr> kw_provider = Some ''acme'', kw_pi_model = None, kw_output_mode = None,
        kw_no_session = None, kw_timeout_seconds = None \<rparr> (Some ''gpt-4o'') =
     Inl (Exn ValueError ''Unknown provider 'acme' for pi-mono agent.'')
   \<and> PiMonoAgent_init
      \<lparr> kw_provider = None, kw_pi_model = None, kw_output_mode = None,
        kw_no_session = None, kw_timeout_seconds = None \<rparr> (Some ''acme/turbo-1'') =
     Inl (Exn ValueError ''Unknown provider 'acme' for pi-mono agent.'')
   \<and> provider sample_pi_agent \<in> fst ` set provider_map"
proof -
  have i: "PiMonoAgent_init
      \<lparr> kw_provider = None, kw_pi_model = None, kw_output_mode = None,
        kw_no_session = None, kw_timeout_seconds = None \<rparr> (Some ''openai/gpt-4o'') = Inr sample_pi_agent"
    by (simp add: PiMonoAgent_init_def exn_bind_def truthy_def split_once_def provider_map_def
        map_model_name_def lower_def lower_char_def normalize_model_id_def sample_pi_agent_def)
  show ?thesis
    using unknown_provider_rejected_by_pi_only [of "\<lparr> kw_provider = Some ''acme'', kw_pi_model = None, kw_output_mode = None,
        kw_no_session = None, kw_timeout_seconds = None \<rparr>" "Some ''gpt-4o''" "''x''" sample_pi_agent None undefined]
      unknown_provider_rejected_by_pi_only [of "\<lparr> kw_provider = None, kw_pi_model = None, kw_output_mode = None,
        kw_no_session = None, kw_timeout_seconds = None \<rparr>" "Some ''openai/gpt-4o''" "''acme/turbo-1''" sample_pi_agent None undefined]
      i
    by (simp add: truthy_def provider_map_def split_once_def)
qed

text \<open>
  Claim C5 as stated fails for \<open>FactoryDroidAgent\<close>: the unrecognized provider
  \<open>acme\<close> is accepted and the default model is chosen.
\<close>

theorem droid_accepts_unknown_provider:
  "map_of provider_map ''acme'' = None
   \<and> FactoryDroidAgent_init None
        \<lparr> kw_droid_model = None, kw_reasoning_effort = None, kw_droid_timeout_seconds = None \<rparr>
        (Some ''acme/turbo-1'') =
      Inr \<lparr> auth_token = None, droid_model = ''claude-sonnet-4-20250514'',
            reasoning_effort = ''medium'', droid_timeout_seconds = 1800,
            last_instruction = None \<rparr>"
  by (simp add: provider_map_def FactoryDroidAgent_init_def droid_short_model_def split_once_def
      model_id_map_def)

subsection \<open>The scan of the pi-mono log\<close>

lemma open_read_Text: "fs p = Some (Text s) \<Longrightarrow> open_read fs p = Inr s"
  by (simp add: open_read_def)

lemma py_add_val: "py_add a v = Inr b \<Longrightarrow> num_val b = num_val a + json_num v"
  by (cases a; cases v) auto

lemma py_add_float: "py_add (PFloat x) v = Inr b \<Longrightarrow> b = PFloat (x + json_num v)"
  by (cases v) auto

lemma add_usage_vals:
  assumes "add_usage t usage = Inr t'"
  shows "num_val (total_input_tokens t') = num_val (total_input_tokens t) + usage_field ''input'' usage"
    and "num_val (total_output_tokens t') = num_val (total_output_tokens t) + usage_field ''output'' usage"
    and "num_val (total_cache_read_tokens t') =
           num_val (total_cache_read_tokens t) + usage_field ''cacheRead'' usage"
    and "num_val (total_cache_write_tokens t') =
           num_val (total_cache_write_tokens t) + usage_field ''cacheWrite'' usage"
    and "num_val (total_cost t') = num_val (total_cost t) + usage_cost usage"
proof -
  from assms obtain u where u: "usage = JObj u"
    by (cases usage) (simp_all add: add_usage_def)
  from assms u obtain i out cr cw cost where
    i: "py_add (total_input_tokens t) (dict_get u ''input'' (JInt 0)) = Inr i" and
    out: "py_add (total_output_tokens t) (dict_get u ''output'' (JInt 0)) = Inr out" and
    cr: "py_add (total_cache_read_tokens t) (dict_get u ''cacheRead'' (JInt 0)) = Inr cr" and
    cw: "py_add (total_cache_write_tokens t) (dict_get u ''cacheWrite'' (JInt 0)) = Inr cw" and
    cost: "(case map_of u ''cost'' of
               None \<Rightarrow> Inr (total_cost t)
             | Some (JObj c) \<Rightarrow> py_add (total_cost t) (dict_get c ''total'' (JInt 0))
             | Some v \<Rightarrow> py_add (total_cost t) v) = Inr cost" and
    t': "t' = \<lparr> total_input_tokens = i, total_output_tokens = out,
                total_cache_read_tokens = cr, total_cache_write_tokens = cw,
                total_cost = cost \<rparr>"
    by (auto simp: add_usage_def exn_bind_def split: sum.splits)
  show "num_val (total_input_tokens t') = num_val (total_input_tokens t) + usage_field ''input'' usage"
    using py_add_val[OF i] by (simp add: t' u usage_field_def)
  show "num_val (total_output_tokens t') = num_val (total_output_tokens t) + usage_field ''output'' usage"
    using py_add_val[OF out] by (simp add: t' u usage_field_def)
  show "num_val (total_cache_read_tokens t') =
           num_val (total_cache_read_tokens t) + usage_field ''cacheRead'' usage"
    using py_add_val[OF cr] by (simp add: t' u usage_field_def)
  show "num_val (total_cache_write_tokens t') =
           num_val (total_cache_write_tokens t) + usage_field ''cacheWrite'' usage"
    using py_add_val[OF cw] by (simp add: t' u usage_field_def)
  have "num_val cost = num_val (total_cost t) + usage_cost usage"
  proof (cases "map_of u ''cost''")
    case None
    with cost show ?thesis by (simp add: usage_cost_def u)
  next
    case (Some c)
    with cost show ?thesis
      by (cases c) (auto simp: usage_cost_def u dest: py_add_val)
  qed
  then show "num_val (total_cost t') = num_val (total_cost t) + usage_cost usage"
    by (simp add: t')
qed

lemma add_usage_cost_float:
  assumes "add_usage t usage = Inr t'" and "total_cost t = PFloat x"
  shows "total_cost t' = PFloat (x + usage_cost usage)"
proof -
  from assms(1) obtain u where u: "usage = JObj u"
    by (cases usage) (simp_all add: add_usage_def)
  from assms(1) u obtain cost where
    cost: "(case map_of u ''cost'' of
               None \<Rightarrow> Inr (total_cost t)
             | Some (JObj c) \<Rightarrow> py_add (total_cost t) (dict_get c ''total'' (JInt 0))
             | Some v \<Rightarrow> py_add (total_cost t) v) = Inr cost" and
    t': "total_cost t' = cost"
    by (auto simp: add_usage_def exn_bind_def split: sum.splits)
  have "cost = PFloat (x + usage_cost usage)"
  proof (cases "map_of u ''cost''")
    case None
    with cost assms(2) show ?thesis by (simp add: usage_cost_def u)
  next
    case (Some c)
    with cost assms(2) show ?thesis
      by (cases c) (auto simp: usage_cost_def u dest: py_add_float)
  qed
  with t' show ?thesis by simp
qed

lemma scan_line_usage:
  assumes "scan_line env t l = Inr t'"
  shows "case line_usage env l of None \<Rightarrow> t' = t | Some u \<Rightarrow> add_usage t u = Inr t'"
  using assms
  by (auto simp: scan_line_def line_usage_def process_event_def Let_def
      split: if_splits sum.splits json.splits option.splits)

lemma usage_events_Cons:
  "usage_events env (l # ls) =
     (case line_usage env l of None \<Rightarrow> usage_events env ls | Some u \<Rightarrow> u # usage_events env ls)"
  by (simp add: usage_events_def List.map_filter_simps split: option.splits)

lemma scan_lines_sums:
  assumes "scan_lines env t ls = Inr t'"
  shows "num_val (total_input_tokens t') =
           num_val (total_input_tokens t) + sum_list (map (usage_field ''input'') (usage_events env ls))
       \<and> num_val (total_output_tokens t') =
           num_val (total_output_tokens t) + sum_list (map (usage_field ''output'') (usage_events env ls))
       \<and> num_val (total_cache_read_tokens t') =
           num_val (total_cache_read_tokens t)
             + sum_list (map (usage_field ''cacheRead'') (usage_events env ls))
       \<and> num_val (total_cache_write_tokens t') =
           num_val (total_cache_write_tokens t)
             + sum_list (map (usage_field ''cacheWrite'') (usage_events env ls))
       \<and> num_val (total_cost t') =
           num_val (total_cost t) + sum_list (map usage_cost (usage_events env ls))"
  using assms
proof (induction ls arbitrary: t)
  case Nil
  then show ?case by (simp add: usage_events_def List.map_filter_simps)
next
  case (Cons l ls)
  from Cons.prems obtain t1 where l: "scan_line env t l = Inr t1"
    and r: "scan_lines env t1 ls = Inr t'"
    by (auto simp: exn_bind_def split: sum.splits)
  note ih = Cons.IH[OF r]
  show ?case
  proof (cases "line_usage env l")
    case None
    with scan_line_usage[OF l] have "t1 = t" by simp
    with ih None show ?thesis by (simp add: usage_events_Cons)
  next
    case (Some u)
    with scan_line_usage[OF l] have "add_usage t u = Inr t1" by simp
    from add_usage_vals[OF this] ih Some show ?thesis
      by (simp add: usage_events_Cons)
  qed
qed

lemma scan_lines_cost_float:
  assumes "scan_lines env t ls = Inr t'" and "total_cost t = PFloat x"
  shows "total_cost t' = PFloat (x + sum_list (map usage_cost (usage_events env ls)))"
  using assms
proof (induction ls arbitrary: t x)
  case Nil
  then show ?case by (simp add: usage_events_def List.map_filter_simps)
next
  case (Cons l ls)
  from Cons.prems obtain t1 where l: "scan_line env t l = Inr t1"
    and r: "scan_lines env t1 ls = Inr t'"
    by (auto simp: exn_bind_def split: sum.splits)
  show ?case
  proof (cases "line_usage env l")
    case None
    with scan_line_usage[OF l] have "t1 = t" by simp
    with Cons.IH[OF r] Cons.prems(2) None show ?thesis by (simp add: usage_events_Cons)
  next
    case (Some u)
    with scan_line_usage[OF l] have "add_usage t u = Inr t1" by simp
    from add_usage_cost_float[OF this Cons.prems(2)]
    have "total_cost t1 = PFloat (x + usage_cost u)" .
    from Cons.IH[OF r this] Some show ?thesis
      by (simp add: usage_events_Cons add.assoc)
  qed
qed

lemma scan_lines_no_usage:
  assumes "scan_lines env t ls = Inr t'" and "usage_events env ls = []"
  shows "t' = t"
  using assms
proof (induction ls arbitrary: t)
  case Nil
  then show ?case by simp
next
  case (Cons l ls)
  from Cons.prems(1) obtain t1 where l: "scan_line env t l = Inr t1"
    and r: "scan_lines env t1 ls = Inr t'"
    by (auto simp: exn_bind_def split: sum.splits)
  from Cons.prems(2) have n: "line_usage env l = None" and e: "usage_events env ls = []"
    by (auto simp: usage_events_Cons split: option.splits)
  from scan_line_usage[OF l] n have "t1 = t" by simp
  with Cons.IH[OF r e] show ?case by simp
qed

subsection \<open>The pi-mono record\<close>

lemma pi_record_readable:
  "open_read fs f = Inr body \<Longrightarrow>
     pi_record env a fs f ctx t = Inr (pi_scanned_record env a body ctx t)"
  by (simp add: pi_record_def pi_scanned_record_def Let_def)

lemma pi_parse_error_keeps_context:
  assumes "pi_parse env a fs f ctx = Inl (e, c)"
  shows "c = ctx"
proof (cases "open_read fs f")
  case (Inl e')
  with assms show ?thesis by (simp add: pi_parse_def)
next
  case (Inr body)
  note opened = this
  show ?thesis
  proof (cases "scan_lines env zero_totals (readlines body)")
    case (Inl e')
    with opened assms show ?thesis by (simp add: pi_parse_def)
  next
    case (Inr t)
    with opened assms show ?thesis
      by (simp add: pi_parse_def pi_record_readable)
  qed
qed

lemma pi_populate_never_raises:
  "\<exists>c. pi_populate_context_post_run env a fs ctx = Inr c"
  by (simp add: pi_populate_context_post_run_def Let_def split: sum.splits prod.splits)

lemma pi_populate_error_record:
  assumes "pi_parse env a fs (pi_output_file fs) ctx = Inl (e, c)"
    and "path_exists fs (pi_output_file fs)"
  shows "pi_populate_context_post_run env a fs ctx =
           Inr (ctx\<lparr> metadata := Some (pi_error_metadata a (exn_str e)) \<rparr>)"
  using assms pi_parse_error_keeps_context[OF assms(1)]
  by (simp add: pi_populate_context_post_run_def Let_def)

lemma pi_populate_scanned:
  assumes "fs (pi_output_file fs) = Some (Text body)"
    and "scan_lines env zero_totals (readlines body) = Inr t"
  shows "pi_populate_context_post_run env a fs ctx = Inr (pi_scanned_record env a body ctx t)"
proof -
  from assms(1) have "path_exists fs (pi_output_file fs)"
    and "open_read fs (pi_output_file fs) = Inr body"
    by (simp_all add: path_exists_def open_read_def)
  with assms(2) show ?thesis
    by (simp add: pi_populate_context_post_run_def Let_def pi_parse_def pi_record_readable)
qed

lemma pi_populate_scan_raised:
  assumes "fs (pi_output_file fs) = Some (Text body)"
    and "scan_lines env zero_totals (readlines body) = Inl e"
  shows "pi_populate_context_post_run env a fs ctx =
           Inr (ctx\<lparr> metadata := Some (pi_error_metadata a (exn_str e)) \<rparr>)"
proof -
  from assms(1) have "path_exists fs (pi_output_file fs)"
    and "open_read fs (pi_output_file fs) = Inr body"
    by (simp_all add: path_exists_def open_read_def)
  with assms(2) show ?thesis
    by (simp add: pi_populate_context_post_run_def Let_def pi_parse_def)
qed

lemma scanned_cache: "n_cache_tokens (pi_scanned_record env a body ctx t) = Some (total_cache_read_tokens t)"
  by (simp add: pi_scanned_record_def Let_def fallback_estimate_def)

text \<open>
  Claim C10, as the code has it. When the pi-mono log is read and the scan completes
  without an exception, with totals \<open>t\<close>,
  the record's cache token count is the accumulated \<open>cacheRead\<close> total, which is the
  sum of the \<open>cacheRead\<close> fields of the usage events. The \<open>cacheWrite\<close> fields are
  summed into the totals as well, but the record does not depend on that total: any
  other value in its place gives the same record. When the scan raises, the cache token
  count is left as it was.
\<close>

theorem cache_tokens_are_cache_reads_only:
  assumes "fs (pi_output_file fs) = Some (Text body)"
  shows "(scan_lines env zero_totals (readlines body) = Inr t \<longrightarrow>
          (\<exists>c. pi_populate_context_post_run env a fs ctx = Inr c
             \<and> n_cache_tokens c = Some (total_cache_read_tokens t)
             \<and> num_val (total_cache_read_tokens t) =
                 sum_list (map (usage_field ''cacheRead'') (usage_events env (readlines body)))
             \<and> num_val (total_cache_write_tokens t) =
                 sum_list (map (usage_field ''cacheWrite'') (usage_events env (readlines body)))
             \<and> (\<forall>w. pi_record env a fs (pi_output_file fs) ctx
                        (t\<lparr> total_cache_write_tokens := w \<rparr>) = Inr c)))
       \<and> (scan_lines env zero_totals (readlines body) = Inl e \<longrightarrow>
          (\<exists>c. pi_populate_context_post_run env a fs ctx = Inr c
             \<and> n_cache_tokens c = n_cache_tokens ctx))"
proof (intro conjI impI)
  assume s: "scan_lines env zero_totals (readlines body) = Inr t"
  from assms have o: "open_read fs (pi_output_file fs) = Inr body"
    by (simp add: open_read_def)
  have w: "pi_scanned_record env a body ctx (t\<lparr> total_cache_write_tokens := w \<rparr>)
             = pi_scanned_record env a body ctx t" for w
    by (simp add: pi_scanned_record_def)
  from scan_lines_sums[OF s]
  have r: "num_val (total_cache_read_tokens t) =
             sum_list (map (usage_field ''cacheRead'') (usage_events env (readlines body)))"
    and cw: "num_val (total_cache_write_tokens t) =
             sum_list (map (usage_field ''cacheWrite'') (usage_events env (readlines body)))"
    by (simp_all add: zero_totals_def)
  show "\<exists>c. pi_populate_context_post_run env a fs ctx = Inr c
             \<and> n_cache_tokens c = Some (total_cache_read_tokens t)
             \<and> num_val (total_cache_read_tokens t) =
                 sum_list (map (usage_field ''cacheRead'') (usage_events env (readlines body)))
             \<and> num_val (total_cache_write_tokens t) =
                 sum_list (map (usage_field ''cacheWrite'') (usage_events env (readlines body)))
             \<and> (\<forall>w. pi_record env a fs (pi_output_file fs) ctx
                        (t\<lparr> total_cache_write_tokens := w \<rparr>) = Inr c)"
    using pi_populate_scanned[of fs _ env, OF assms s] r cw
    by (simp add: scanned_cache pi_record_readable[OF o] w)
next
  assume "scan_lines env zero_totals (readlines body) = Inl e"
  from pi_populate_scan_raised[of fs _ env, OF assms this]
  show "\<exists>c. pi_populate_context_post_run env a fs ctx = Inr c
             \<and> n_cache_tokens c = n_cache_tokens ctx"
    by simp
qed

subsection \<open>The sample transcripts, evaluated\<close>

lemmas sample_line_defs =
  line_usage_bare_cost_def line_usage_total_cost_def line_bare_cost_only_def
  line_total_cost_only_def line_message_not_dict_def line_negative_input_def
  line_assistant_content_def dq_def

lemmas scan_defs =
  transcript_def scan_line_def strip_def is_space_def sample_env_def table_env_def
  usage_event_def process_event_def add_usage_def exn_bind_def dict_get_def zero_totals_def

lemma scan_two_costs:
  "scan_lines sample_env zero_totals
     (readlines (transcript [line_usage_bare_cost, line_usage_total_cost])) =
   Inr \<lparr> total_input_tokens = PInt 11, total_output_tokens = PInt 7,
         total_cache_read_tokens = PInt 7, total_cache_write_tokens = PInt 9,
         total_cost = PFloat 0.05 \<rparr>"
  by (simp add: scan_defs sample_line_defs)

lemma scan_costs_only:
  "scan_lines sample_env zero_totals
     (readlines (transcript [line_bare_cost_only, line_total_cost_only])) =
   Inr \<lparr> total_input_tokens = PInt 0, total_output_tokens = PInt 0,
         total_cache_read_tokens = PInt 0, total_cache_write_tokens = PInt 0,
         total_cost = PFloat 0.05 \<rparr>"
  by (simp add: scan_defs sample_line_defs)

lemma scan_message_not_dict:
  "scan_lines sample_env zero_totals (readlines (transcript [line_message_not_dict])) =
   Inl (no_attribute_get (JStr ''x''))"
  by (simp add: scan_defs sample_line_defs)

lemma scan_negative:
  "scan_lines sample_env zero_totals (readlines (transcript [line_negative_input])) =
   Inr \<lparr> total_input_tokens = PInt (- 5), total_output_tokens = PInt 3,
         total_cache_read_tokens = PInt 0, total_cache_write_tokens = PInt 0,
         total_cost = PFloat 0 \<rparr>"
  by (simp add: scan_defs sample_line_defs)

lemma scan_content:
  "scan_lines sample_env zero_totals (readlines (transcript [line_assistant_content])) =
   Inr zero_totals"
  by (simp add: scan_defs sample_line_defs)

lemma events_two_costs:
  "usage_events sample_env (readlines (transcript [line_usage_bare_cost, line_usage_total_cost])) =
    [JObj [(''input'', JInt 10), (''output'', JInt 5), (''cacheRead'', JInt 7),
                        (''cacheWrite'', JInt 9), (''cost'', JFloat 0.02)],
     JObj [(''input'', JInt 1), (''output'', JInt 2),
                        (''cost'', JObj [(''total'', JFloat 0.03)])]]"
  by (simp add: usage_events_def List.map_filter_simps line_usage_def transcript_def strip_def is_space_def sample_env_def table_env_def
  usage_event_def sample_line_defs)

lemma content_chars_sample:
  "actual_content_chars sample_env (readlines (transcript [line_assistant_content])) = 11"
  by (simp add: actual_content_chars_def content_chars_def role_assistant_marker_def content_marker_def
     transcript_def strip_def is_space_def sample_env_def table_env_def sample_line_defs)

subsection \<open>Cache tokens and cost\<close>

lemma pi_output_file_single:
  "pi_output_file (single_file ''pi_output.log'' f) = ''pi_output.log''"
  by (simp add: pi_output_file_def path_exists_def single_file_def)

lemma pi_log_single:
  "single_file ''pi_output.log'' f (pi_output_file (single_file ''pi_output.log'' f)) = Some f"
  by (simp add: pi_output_file_single) (simp add: single_file_def)

text \<open>
  The statement of C10 at a log with two usage events (cache reads 7, cache writes 9) and
  at a log whose scan raises.
\<close>

theorem cache_tokens_are_cache_reads_only_witness:
  "(\<exists>c. pi_populate_context_post_run sample_env sample_pi_agent
          (single_file ''pi_output.log''
             (Text (transcript [line_usage_bare_cost, line_usage_total_cost]))) empty_context = Inr c
        \<and> n_cache_tokens c = Some (PInt 7)
        \<and> sum_list (map (usage_field ''cacheRead'')
             (usage_events sample_env
                (readlines (transcript [line_usage_bare_cost, line_usage_total_cost])))) = 7
        \<and> sum_list (map (usage_field ''cacheWrite'')
             (usage_events sample_env
                (readlines (transcript [line_usage_bare_cost, line_usage_total_cost])))) = 9)
   \<and> (\<exists>c. pi_populate_context_post_run sample_env sample_pi_agent
          (single_file ''pi_output.log'' (Text (transcript [line_message_not_dict])))
          empty_context = Inr c
        \<and> n_cache_tokens c = None)"
proof -
  let ?t = "\<lparr> total_input_tokens = PInt 11, total_output_tokens = PInt 7,
         total_cache_read_tokens = PInt 7, total_cache_write_tokens = PInt 9,
         total_cost = PFloat 0.05 \<rparr>"
  have a: "\<exists>c. pi_populate_context_post_run sample_env sample_pi_agent
          (single_file ''pi_output.log''
             (Text (transcript [line_usage_bare_cost, line_usage_total_cost]))) empty_context = Inr c
        \<and> n_cache_tokens c = Some (PInt 7)
        \<and> sum_list (map (usage_field ''cacheRead'')
             (usage_events sample_env
                (readlines (transcript [line_usage_bare_cost, line_usage_total_cost])))) = 7
        \<and> sum_list (map (usage_field ''cacheWrite'')
             (usage_events sample_env
                (readlines (transcript [line_usage_bare_cost, line_usage_total_cost])))) = 9"
    using cache_tokens_are_cache_reads_only
      [where fs = "single_file ''pi_output.log''
             (Text (transcript [line_usage_bare_cost, line_usage_total_cost]))"
         and env = sample_env and t = ?t and a = sample_pi_agent and ctx = empty_context
         and e = undefined, OF pi_log_single]
      scan_two_costs
    by auto
  have b: "\<exists>c. pi_populate_context_post_run sample_env sample_pi_agent
          (single_file ''pi_output.log'' (Text (transcript [line_message_not_dict])))
          empty_context = Inr c
        \<and> n_cache_tokens c = None"
    using cache_tokens_are_cache_reads_only
      [where fs = "single_file ''pi_output.log'' (Text (transcript [line_message_not_dict]))"
         and env = sample_env and t = undefined and a = sample_pi_agent and ctx = empty_context
         and e = "no_attribute_get (JStr ''x'')", OF pi_log_single]
      scan_message_not_dict
    by (auto simp: empty_context_def)
  from a b show ?thesis by blast
qed

text \<open>
  Claim C10 as stated fails for a log whose scan raises after a usage event: the first
  line carries \<open>cacheRead\<close> 7, the second is a \<open>message_end\<close> event whose
  \<open>message\<close> is a string, so \<open>.get\<close> raises \<open>AttributeError\<close>; the sum of the
  \<open>cacheRead\<close> fields is 7 and the record's cache token count is left unset.
\<close>

theorem scan_exception_leaves_cache_tokens_unset:
  "sum_list (map (usage_field ''cacheRead'')
      (usage_events sample_env
         (readlines (transcript [line_usage_bare_cost, line_message_not_dict])))) = 7
   \<and> (\<exists>c. pi_populate_context_post_run sample_env sample_pi_agent
          (single_file ''pi_output.log''
             (Text (transcript [line_usage_bare_cost, line_message_not_dict])))
          empty_context = Inr c
        \<and> n_cache_tokens c = None)"
proof -
  have e: "usage_events sample_env
      (readlines (transcript [line_usage_bare_cost, line_message_not_dict])) =
      [JObj [(''input'', JInt 10), (''output'', JInt 5), (''cacheRead'', JInt 7),
             (''cacheWrite'', JInt 9), (''cost'', JFloat 0.02)]]"
    by (simp add: usage_events_def List.map_filter_simps line_usage_def transcript_def
        strip_def is_space_def sample_env_def table_env_def usage_event_def sample_line_defs)
  have r: "scan_lines sample_env zero_totals
      (readlines (transcript [line_usage_bare_cost, line_message_not_dict])) =
      Inl (no_attribute_get (JStr ''x''))"
    by (simp add: scan_defs sample_line_defs)
  have "pi_populate_context_post_run sample_env sample_pi_agent
          (single_file ''pi_output.log''
             (Text (transcript [line_usage_bare_cost, line_message_not_dict])))
          empty_context =
        Inr (empty_context\<lparr> metadata :=
               Some (pi_error_metadata sample_pi_agent
                       (exn_str (no_attribute_get (JStr ''x'')))) \<rparr>)"
    using pi_log_single r
    by (rule pi_populate_scan_raised
        [where fs = "single_file ''pi_output.log''
             (Text (transcript [line_usage_bare_cost, line_message_not_dict]))"])
  then show ?thesis
    by (simp add: e usage_field_def dict_get_def empty_context_def)
qed

lemma cost_fields_sum:
  "sum_list (map usage_cost us) = sum_list (map cost_value (cost_fields us))"
proof (induction us)
  case Nil
  then show ?case by (simp add: cost_fields_def List.map_filter_simps)
next
  case (Cons u us)
  then show ?case
    by (cases u) (auto simp: cost_fields_def List.map_filter_simps usage_cost_def split: option.splits)
qed

lemma scanned_cost_reported:
  "num_val (total_input_tokens t) \<noteq> 0 \<or> num_val (total_output_tokens t) \<noteq> 0 \<Longrightarrow>
     cost_usd (pi_scanned_record env a body ctx t) = Some (total_cost t)"
  by (auto simp: pi_scanned_record_def Let_def)

text \<open>
  Claim C4, as the code has it. When the pi-mono log is read, the scan completes and the
  accumulated input and output token counts are not both zero, the reported cost is the
  sum over the usage events' cost fields, a bare number counting as itself and an object
  as its \<open>total\<close>; so cost fields \<open>0.02\<close> and \<open>{"total": 0.03}\<close>, in either
  order and with no other cost field, report \<open>0.05\<close>. (A \<open>float\<close> is a real number
  here.)
\<close>

theorem both_cost_forms_summed_when_tokens_reported:
  assumes "fs (pi_output_file fs) = Some (Text body)"
    and "scan_lines env zero_totals (readlines body) = Inr t"
    and "num_val (total_input_tokens t) \<noteq> 0 \<or> num_val (total_output_tokens t) \<noteq> 0"
  shows "\<exists>c. pi_populate_context_post_run env a fs ctx = Inr c
           \<and> cost_usd c =
               Some (PFloat (sum_list (map cost_value
                                (cost_fields (usage_events env (readlines body))))))
           \<and> (cost_fields (usage_events env (readlines body)) =
                  [JFloat 0.02, JObj [(''total'', JFloat 0.03)]]
                \<or> cost_fields (usage_events env (readlines body)) =
                  [JObj [(''total'', JFloat 0.03)], JFloat 0.02]
               \<longrightarrow> cost_usd c = Some (PFloat 0.05))"
proof -
  have "total_cost t = PFloat (0 + sum_list (map usage_cost (usage_events env (readlines body))))"
    using assms(2) by (rule scan_lines_cost_float) (simp add: zero_totals_def)
  then have c: "total_cost t =
      PFloat (sum_list (map cost_value (cost_fields (usage_events env (readlines body)))))"
    by (simp add: cost_fields_sum)
  have p: "pi_populate_context_post_run env a fs ctx = Inr (pi_scanned_record env a body ctx t)"
    using assms(1,2) by (rule pi_populate_scanned[where fs = fs])
  have "cost_usd (pi_scanned_record env a body ctx t) =
          Some (PFloat (sum_list (map cost_value (cost_fields (usage_events env (readlines body))))))"
    using scanned_cost_reported[OF assms(3)] c by simp
  moreover have "cost_usd (pi_scanned_record env a body ctx t) = Some (PFloat 0.05)"
    if "cost_fields (usage_events env (readlines body)) =
                  [JFloat 0.02, JObj [(''total'', JFloat 0.03)]]
                \<or> cost_fields (usage_events env (readlines body)) =
                  [JObj [(''total'', JFloat 0.03)], JFloat 0.02]"
    using that scanned_cost_reported[OF assms(3)] c by (auto simp: dict_get_def)
  ultimately show ?thesis using p by blast
qed

text \<open>The statement of C4 at a log of two usage events with token counts.\<close>

theorem both_cost_forms_summed_when_tokens_reported_witness:
  "\<exists>c. pi_populate_context_post_run sample_env sample_pi_agent
          (single_file ''pi_output.log''
             (Text (transcript [line_usage_bare_cost, line_usage_total_cost]))) empty_context = Inr c
        \<and> cost_fields (usage_events sample_env
             (readlines (transcript [line_usage_bare_cost, line_usage_total_cost]))) =
             [JFloat 0.02, JObj [(''total'', JFloat 0.03)]]
        \<and> cost_usd c = Some (PFloat 0.05)"
proof -
  let ?t = "\<lparr> total_input_tokens = PInt 11, total_output_tokens = PInt 7,
         total_cache_read_tokens = PInt 7, total_cache_write_tokens = PInt 9,
         total_cost = PFloat 0.05 \<rparr>"
  have e: "cost_fields (usage_events sample_env
             (readlines (transcript [line_usage_bare_cost, line_usage_total_cost]))) =
             [JFloat 0.02, JObj [(''total'', JFloat 0.03)]]"
    by (simp add: events_two_costs cost_fields_def List.map_filter_simps)
  have n: "num_val (total_input_tokens ?t) \<noteq> 0 \<or> num_val (total_output_tokens ?t) \<noteq> 0"
    by simp
  from both_cost_forms_summed_when_tokens_reported
      [where fs = "single_file ''pi_output.log''
             (Text (transcript [line_usage_bare_cost, line_usage_total_cost]))"
         and a = sample_pi_agent and ctx = empty_context,
       OF pi_log_single scan_two_costs n] e
  show ?thesis by auto
qed

text \<open>
  Claim C4 as stated fails when the usage events carry the two costs but no token
  counts: both totals are zero, the fallback estimate replaces the accumulated cost, and
  the record reports \<open>0.0004\<close> for the provider \<open>openai\<close>.
\<close>

theorem cost_replaced_by_estimate_without_token_counts:
  "cost_fields (usage_events sample_env
      (readlines (transcript [line_bare_cost_only, line_total_cost_only]))) =
      [JFloat 0.02, JObj [(''total'', JFloat 0.03)]]
   \<and> (\<exists>c. pi_populate_context_post_run sample_env sample_pi_agent
          (single_file ''pi_output.log''
             (Text (transcript [line_bare_cost_only, line_total_cost_only]))) empty_context = Inr c
        \<and> cost_usd c = Some (PFloat 0.0004)
        \<and> cost_usd c \<noteq> Some (PFloat 0.05))"
proof -
  have e: "cost_fields (usage_events sample_env
      (readlines (transcript [line_bare_cost_only, line_total_cost_only]))) =
      [JFloat 0.02, JObj [(''total'', JFloat 0.03)]]"
    by (simp add: cost_fields_def usage_events_def List.map_filter_simps line_usage_def
        transcript_def strip_def is_space_def sample_env_def table_env_def usage_event_def
        sample_line_defs)
  have a: "actual_content_chars sample_env
      (readlines (transcript [line_bare_cost_only, line_total_cost_only])) = 0"
    by (simp add: actual_content_chars_def content_chars_def role_assistant_marker_def
        content_marker_def transcript_def sample_line_defs)
  have "pi_populate_context_post_run sample_env sample_pi_agent
          (single_file ''pi_output.log''
             (Text (transcript [line_bare_cost_only, line_total_cost_only]))) empty_context =
        Inr (pi_scanned_record sample_env sample_pi_agent
               (transcript [line_bare_cost_only, line_total_cost_only]) empty_context
               \<lparr> total_input_tokens = PInt 0, total_output_tokens = PInt 0,
         total_cache_read_tokens = PInt 0, total_cache_write_tokens = PInt 0,
         total_cost = PFloat 0.05 \<rparr>)"
    using pi_log_single scan_costs_only
    by (rule pi_populate_scanned[where fs = "single_file ''pi_output.log''
             (Text (transcript [line_bare_cost_only, line_total_cost_only]))"])
  moreover have "cost_usd (pi_scanned_record sample_env sample_pi_agent
               (transcript [line_bare_cost_only, line_total_cost_only]) empty_context
               \<lparr> total_input_tokens = PInt 0, total_output_tokens = PInt 0,
         total_cache_read_tokens = PInt 0, total_cache_write_tokens = PInt 0,
         total_cost = PFloat 0.05 \<rparr>) = Some (PFloat 0.0004)"
    by (simp add: pi_scanned_record_def fallback_estimate_def a cost_per_1k_out_def
        sample_pi_agent_def)
  ultimately show ?thesis using e by simp
qed

subsection \<open>The fallback estimate\<close>

lemma droid_populate_readable:
  "fs ''command-2/droid_output.log'' = Some (Text out) \<Longrightarrow>
     droid_populate_context_post_run d fs ctx = Inr (droid_metrics d out ctx)"
  by (simp add: droid_populate_context_post_run_def path_exists_def open_read_def)

lemma scanned_fallback:
  assumes "num_val (total_input_tokens t) = 0" and "num_val (total_output_tokens t) = 0"
  shows "n_input_tokens (pi_scanned_record env a body ctx t) = Some (PInt 500)"
    and "n_output_tokens (pi_scanned_record env a body ctx t) =
           Some (PInt (max (int (actual_content_chars env (readlines body)) div 4) 100))"
    and "cost_usd (pi_scanned_record env a body ctx t) =
           Some (PFloat (500 / 1000 * (cost_per_1k_out (provider a) / 5)
                  + of_int (max (int (actual_content_chars env (readlines body)) div 4) 100) / 1000
                    * cost_per_1k_out (provider a)))"
  using assms by (simp_all add: pi_scanned_record_def fallback_estimate_def Let_def)

text \<open>
  Claim C3, as the code has it. pi-mono: when the log is read, the scan completes without
  an exception and no line is a usage event, the record holds the fallback estimate: 500
  input tokens, output tokens the assistant content's characters divided by 4 and at least
  100, and a cost from the provider's rate per 1000 output tokens with input at a fifth
  of it; so the two counts are never both zero. Factory Droid has no usage events: from a
  log that is read it always estimates, output tokens from the whole log's characters
  divided by 4 (unset when that is 0), input tokens from the last instruction's
  characters divided by 4 and at least 1 (unset without an instruction), the cost at one
  rate per 1000 tokens for both; neither count is ever exactly zero.
\<close>

theorem fallback_estimate_without_usage_events:
  "(fs (pi_output_file fs) = Some (Text body)
      \<and> scan_lines env zero_totals (readlines body) = Inr t
      \<and> usage_events env (readlines body) = [] \<longrightarrow>
    (\<exists>c. pi_populate_context_post_run env a fs ctx = Inr c
        \<and> n_input_tokens c = Some (PInt 500)
        \<and> n_output_tokens c =
            Some (PInt (max (int (actual_content_chars env (readlines body)) div 4) 100))
        \<and> cost_usd c =
            Some (PFloat (500 / 1000 * (cost_per_1k_out (provider a) / 5)
                   + of_int (max (int (actual_content_chars env (readlines body)) div 4) 100) / 1000
                     * cost_per_1k_out (provider a)))))
   \<and> (dfs ''command-2/droid_output.log'' = Some (Text out) \<longrightarrow>
    (\<exists>c. droid_populate_context_post_run d dfs ctx = Inr c
        \<and> n_output_tokens c =
            (if 4 \<le> length out then Some (PInt (int (length out) div 4)) else None)
        \<and> n_input_tokens c =
            (if truthy (last_instruction d)
             then Some (PInt (max (int (length (the (last_instruction d))) div 4) 1)) else None)
        \<and> cost_usd c =
            (if truthy (last_instruction d) \<or> 4 \<le> length out
             then Some (PFloat (of_int ((if truthy (last_instruction d)
                                          then max (int (length (the (last_instruction d))) div 4) 1
                                          else 0)
                                         + int (length out) div 4) / 1000
                                * cost_per_1k_tokens (droid_model d)))
             else None)
        \<and> n_input_tokens c \<noteq> Some (PInt 0) \<and> n_output_tokens c \<noteq> Some (PInt 0)))"
proof (intro conjI impI)
  assume h: "fs (pi_output_file fs) = Some (Text body)
      \<and> scan_lines env zero_totals (readlines body) = Inr t
      \<and> usage_events env (readlines body) = []"
  then have t: "t = zero_totals"
    using scan_lines_no_usage by blast
  have z: "num_val (total_input_tokens t) = 0" "num_val (total_output_tokens t) = 0"
    by (simp_all add: t zero_totals_def)
  have "pi_populate_context_post_run env a fs ctx = Inr (pi_scanned_record env a body ctx t)"
    using h by (intro pi_populate_scanned[where fs = fs]) simp_all
  with scanned_fallback[OF z, of env a body ctx]
  show "\<exists>c. pi_populate_context_post_run env a fs ctx = Inr c
        \<and> n_input_tokens c = Some (PInt 500)
        \<and> n_output_tokens c =
            Some (PInt (max (int (actual_content_chars env (readlines body)) div 4) 100))
        \<and> cost_usd c =
            Some (PFloat (500 / 1000 * (cost_per_1k_out (provider a) / 5)
                   + of_int (max (int (actual_content_chars env (readlines body)) div 4) 100) / 1000
                     * cost_per_1k_out (provider a)))"
    by simp
next
  assume h: "dfs ''command-2/droid_output.log'' = Some (Text out)"
  have l: "(0 < int (length out) div 4) = (4 \<le> length out)"
    by (simp add: pos_imp_zdiv_pos_iff)
  have n: "0 \<le> int (length out) div 4" by simp
  have "n_output_tokens (droid_metrics d out ctx) =
            (if 4 \<le> length out then Some (PInt (int (length out) div 4)) else None)"
    by (simp add: droid_metrics_def Let_def l)
  moreover have "n_input_tokens (droid_metrics d out ctx) =
            (if truthy (last_instruction d)
             then Some (PInt (max (int (length (the (last_instruction d))) div 4) 1)) else None)"
    by (simp add: droid_metrics_def Let_def)
  moreover have "cost_usd (droid_metrics d out ctx) =
            (if truthy (last_instruction d) \<or> 4 \<le> length out
             then Some (PFloat (of_int ((if truthy (last_instruction d)
                                          then max (int (length (the (last_instruction d))) div 4) 1
                                          else 0)
                                         + int (length out) div 4) / 1000
                                * cost_per_1k_tokens (droid_model d)))
             else None)"
    using n by (auto simp: droid_metrics_def Let_def l max_def)
  moreover have "n_input_tokens (droid_metrics d out ctx) \<noteq> Some (PInt 0)"
    by (simp add: droid_metrics_def Let_def max_def)
  moreover have "n_output_tokens (droid_metrics d out ctx) \<noteq> Some (PInt 0)"
    by (simp add: droid_metrics_def Let_def)
  ultimately show "\<exists>c. droid_populate_context_post_run d dfs ctx = Inr c
        \<and> n_output_tokens c =
            (if 4 \<le> length out then Some (PInt (int (length out) div 4)) else None)
        \<and> n_input_tokens c =
            (if truthy (last_instruction d)
             then Some (PInt (max (int (length (the (last_instruction d))) div 4) 1)) else None)
        \<and> cost_usd c =
            (if truthy (last_instruction d) \<or> 4 \<le> length out
             then Some (PFloat (of_int ((if truthy (last_instruction d)
                                          then max (int (length (the (last_instruction d))) div 4) 1
                                          else 0)
                                         + int (length out) div 4) / 1000
                                * cost_per_1k_tokens (droid_model d)))
             else None)
        \<and> n_input_tokens c \<noteq> Some (PInt 0) \<and> n_output_tokens c \<noteq> Some (PInt 0)"
    using droid_populate_readable[where fs = dfs, OF h] by simp
qed


lemma droid_log_single:
  "single_file ''command-2/droid_output.log'' f ''command-2/droid_output.log'' = Some f"
  by (simp add: single_file_def)

text \<open>
  The statement of C3 at a pi-mono log of one assistant message without usage, and at a
  Factory Droid log of 19 characters.
\<close>

theorem fallback_estimate_without_usage_events_witness:
  "(\<exists>c. pi_populate_context_post_run sample_env sample_pi_agent
          (single_file ''pi_output.log'' (Text (transcript [line_assistant_content])))
          empty_context = Inr c
        \<and> usage_events sample_env (readlines (transcript [line_assistant_content])) = []
        \<and> n_input_tokens c = Some (PInt 500) \<and> n_output_tokens c = Some (PInt 100)
        \<and> cost_usd c = Some (PFloat 0.0004))
   \<and> (\<exists>c. droid_populate_context_post_run sample_droid_agent
          (single_file ''command-2/droid_output.log'' (Text ''all good, work done''))
          empty_context = Inr c
        \<and> n_input_tokens c = Some (PInt 1) \<and> n_output_tokens c = Some (PInt 4)
        \<and> cost_usd c = Some (PFloat 0.000015))"
proof -
  have e: "usage_events sample_env (readlines (transcript [line_assistant_content])) = []"
    by (simp add: usage_events_def List.map_filter_simps line_usage_def transcript_def
        strip_def is_space_def sample_env_def table_env_def sample_line_defs)
  note inst = fallback_estimate_without_usage_events
      [where fs = "single_file ''pi_output.log'' (Text (transcript [line_assistant_content]))"
         and body = "transcript [line_assistant_content]" and env = sample_env
         and t = zero_totals and a = sample_pi_agent and ctx = empty_context
         and dfs = "single_file ''command-2/droid_output.log'' (Text ''all good, work done'')"
         and out = "''all good, work done''" and d = sample_droid_agent]
  have r: "cost_per_1k_out (provider sample_pi_agent) = 0.002"
    by (simp add: cost_per_1k_out_def sample_pi_agent_def)
  have p: "\<exists>c. pi_populate_context_post_run sample_env sample_pi_agent
          (single_file ''pi_output.log'' (Text (transcript [line_assistant_content])))
          empty_context = Inr c
        \<and> usage_events sample_env (readlines (transcript [line_assistant_content])) = []
        \<and> n_input_tokens c = Some (PInt 500) \<and> n_output_tokens c = Some (PInt 100)
        \<and> cost_usd c = Some (PFloat 0.0004)"
    using inst[THEN conjunct1] pi_log_single[of "Text (transcript [line_assistant_content])"]
      scan_content e content_chars_sample r
    by auto
  have i: "truthy (last_instruction sample_droid_agent)"
    "the (last_instruction sample_droid_agent) = ''fix it''"
    "cost_per_1k_tokens (droid_model sample_droid_agent) = 0.003"
    by (simp_all add: sample_droid_agent_def truthy_def cost_per_1k_tokens_def)
  have d: "\<exists>c. droid_populate_context_post_run sample_droid_agent
          (single_file ''command-2/droid_output.log'' (Text ''all good, work done''))
          empty_context = Inr c
        \<and> n_input_tokens c = Some (PInt 1) \<and> n_output_tokens c = Some (PInt 4)
        \<and> cost_usd c = Some (PFloat 0.000015)"
    using inst[THEN conjunct2] droid_log_single[of "Text ''all good, work done''"] i
    by auto
  from p d show ?thesis by blast
qed

text \<open>
  Claim C3 as stated fails for a log with no usage event whose scan raises: a
  \<open>message_end\<close> event whose \<open>message\<close> is a string makes \<open>.get\<close> raise
  \<open>AttributeError\<close>, the top-level handler writes the error record, and no estimate
  is made.
\<close>

theorem scan_exception_skips_fallback:
  "usage_events sample_env (readlines (transcript [line_message_not_dict])) = []
   \<and> (\<exists>c. pi_populate_context_post_run sample_env sample_pi_agent
          (single_file ''pi_output.log'' (Text (transcript [line_message_not_dict])))
          empty_context = Inr c
        \<and> n_input_tokens c = None \<and> n_output_tokens c = None \<and> cost_usd c = None
        \<and> metadata c =
            Some (pi_error_metadata sample_pi_agent (exn_str (no_attribute_get (JStr ''x'')))))"
proof -
  have e: "usage_events sample_env (readlines (transcript [line_message_not_dict])) = []"
    by (simp add: usage_events_def List.map_filter_simps line_usage_def transcript_def
        strip_def is_space_def sample_env_def table_env_def sample_line_defs)
  have "pi_populate_context_post_run sample_env sample_pi_agent
          (single_file ''pi_output.log'' (Text (transcript [line_message_not_dict])))
          empty_context =
        Inr (empty_context\<lparr> metadata :=
               Some (pi_error_metadata sample_pi_agent
                       (exn_str (no_attribute_get (JStr ''x'')))) \<rparr>)"
    using pi_log_single scan_message_not_dict
    by (rule pi_populate_scan_raised
        [where fs = "single_file ''pi_output.log'' (Text (transcript [line_message_not_dict]))"])
  with e show ?thesis by (simp add: empty_context_def)
qed

subsection \<open>The success flag\<close>

lemma has_error_text_empty: "\<not> has_error_text []"
  by (simp add: has_error_text_def lower_def)

lemma first_lines_errors:
  "list_ex has_error_text (first_lines body) = list_ex has_error_text (take 20 (readlines body))"
  using has_error_text_empty
  by (auto simp: first_lines_def list_ex_iff)

text \<open>
  Claim C6, as the code has it. pi-mono: when the log is read and the scan completes
  with totals \<open>t\<close>, the success flag is true exactly when none of the first 20 lines
  contains \<open>error\<close> or \<open>failed\<close> in any letter case and the accumulated output
  token count is positive; later lines do not enter. Factory Droid: the success flag is
  true exactly when the log contains the text \<open>Factory Droid Session Complete\<close>.
\<close>

theorem success_flag_as_computed:
  "(fs (pi_output_file fs) = Some (Text body)
      \<and> scan_lines env zero_totals (readlines body) = Inr t \<longrightarrow>
    (\<exists>c m. pi_populate_context_post_run env a fs ctx = Inr c \<and> metadata c = Some m
        \<and> map_of m ''success'' =
            Some (MBool (\<not> list_ex has_error_text (take 20 (readlines body))
                         \<and> 0 < num_val (total_output_tokens t)))))
   \<and> (dfs ''command-2/droid_output.log'' = Some (Text out) \<longrightarrow>
    (\<exists>c m. droid_populate_context_post_run d dfs ctx = Inr c \<and> metadata c = Some m
        \<and> map_of m ''success'' =
            Some (MBool (py_in ''Factory Droid Session Complete'' out))))"
proof (intro conjI impI)
  assume h: "fs (pi_output_file fs) = Some (Text body)
      \<and> scan_lines env zero_totals (readlines body) = Inr t"
  have "pi_populate_context_post_run env a fs ctx = Inr (pi_scanned_record env a body ctx t)"
    using h by (intro pi_populate_scanned[where fs = fs]) simp_all
  moreover have "\<exists>m. metadata (pi_scanned_record env a body ctx t) = Some m
     \<and> map_of m ''success'' =
            Some (MBool (\<not> list_ex has_error_text (take 20 (readlines body))
                         \<and> 0 < num_val (total_output_tokens t)))"
    by (simp add: pi_scanned_record_def Let_def first_lines_errors)
  ultimately show "\<exists>c m. pi_populate_context_post_run env a fs ctx = Inr c \<and> metadata c = Some m
        \<and> map_of m ''success'' =
            Some (MBool (\<not> list_ex has_error_text (take 20 (readlines body))
                         \<and> 0 < num_val (total_output_tokens t)))"
    by simp
next
  assume h: "dfs ''command-2/droid_output.log'' = Some (Text out)"
  have "\<exists>m. metadata (droid_metrics d out ctx) = Some m
     \<and> map_of m ''success'' = Some (MBool (py_in ''Factory Droid Session Complete'' out))"
    by (simp add: droid_metrics_def Let_def)
  then show "\<exists>c m. droid_populate_context_post_run d dfs ctx = Inr c \<and> metadata c = Some m
        \<and> map_of m ''success'' =
            Some (MBool (py_in ''Factory Droid Session Complete'' out))"
    using droid_populate_readable[where fs = dfs, OF h] by simp
qed

text \<open>The statement of C6 at a pi-mono log with usage and at a Factory Droid log.\<close>

theorem success_flag_as_computed_witness:
  "(\<exists>c m. pi_populate_context_post_run sample_env sample_pi_agent
          (single_file ''pi_output.log''
             (Text (transcript [line_usage_bare_cost, line_usage_total_cost]))) empty_context = Inr c
        \<and> metadata c = Some m \<and> map_of m ''success'' = Some (MBool True))
   \<and> (\<exists>c m. droid_populate_context_post_run sample_droid_agent
          (single_file ''command-2/droid_output.log'' (Text ''all good, work done''))
          empty_context = Inr c
        \<and> metadata c = Some m \<and> map_of m ''success'' = Some (MBool False))"
proof -
  let ?t = "\<lparr> total_input_tokens = PInt 11, total_output_tokens = PInt 7,
         total_cache_read_tokens = PInt 7, total_cache_write_tokens = PInt 9,
         total_cost = PFloat 0.05 \<rparr>"
  note inst = success_flag_as_computed
      [where fs = "single_file ''pi_output.log''
             (Text (transcript [line_usage_bare_cost, line_usage_total_cost]))"
         and body = "transcript [line_usage_bare_cost, line_usage_total_cost]"
         and env = sample_env and t = ?t and a = sample_pi_agent and ctx = empty_context
         and dfs = "single_file ''command-2/droid_output.log'' (Text ''all good, work done'')"
         and out = "''all good, work done''" and d = sample_droid_agent]
  have n: "\<not> list_ex has_error_text
            (take 20 (readlines (transcript [line_usage_bare_cost, line_usage_total_cost])))"
    by code_simp
  have p: "\<exists>c m. pi_populate_context_post_run sample_env sample_pi_agent
          (single_file ''pi_output.log''
             (Text (transcript [line_usage_bare_cost, line_usage_total_cost]))) empty_context = Inr c
        \<and> metadata c = Some m \<and> map_of m ''success'' = Some (MBool True)"
    using inst[THEN conjunct1]
      pi_log_single[of "Text (transcript [line_usage_bare_cost, line_usage_total_cost])"]
      scan_two_costs n
    by auto
  have s: "\<not> py_in ''Factory Droid Session Complete'' ''all good, work done''"
    by simp
  have d: "\<exists>c m. droid_populate_context_post_run sample_droid_agent
          (single_file ''command-2/droid_output.log'' (Text ''all good, work done''))
          empty_context = Inr c
        \<and> metadata c = Some m \<and> map_of m ''success'' = Some (MBool False)"
    using inst[THEN conjunct2] droid_log_single[of "Text ''all good, work done''"] s
    by auto
  from p d show ?thesis by blast
qed

text \<open>
  Claim C6 as stated fails for Factory Droid in both directions: a log without
  \<open>error\<close> or \<open>failed\<close> and with 4 output tokens has the flag false, and a log that
  starts with \<open>error\<close> has the flag true.
\<close>

theorem droid_success_ignores_errors_and_tokens:
  "\<not> has_error_text ''all good, work done''
   \<and> (\<exists>c m. droid_populate_context_post_run sample_droid_agent
          (single_file ''command-2/droid_output.log'' (Text ''all good, work done''))
          empty_context = Inr c
        \<and> n_output_tokens c = Some (PInt 4)
        \<and> metadata c = Some m \<and> map_of m ''success'' = Some (MBool False))
   \<and> has_error_text ''error: Factory Droid Session Complete''
   \<and> (\<exists>c m. droid_populate_context_post_run sample_droid_agent
          (single_file ''command-2/droid_output.log''
             (Text ''error: Factory Droid Session Complete''))
          empty_context = Inr c
        \<and> metadata c = Some m \<and> map_of m ''success'' = Some (MBool True))"
proof -
  have a: "\<not> has_error_text ''all good, work done''"
    by (simp add: has_error_text_def lower_def lower_char_def)
  have b: "has_error_text ''error: Factory Droid Session Complete''"
    by (simp add: has_error_text_def lower_def lower_char_def)
  have c: "\<exists>m. n_output_tokens (droid_metrics sample_droid_agent ''all good, work done'' empty_context)
              = Some (PInt 4)
        \<and> metadata (droid_metrics sample_droid_agent ''all good, work done'' empty_context) = Some m
        \<and> map_of m ''success'' = Some (MBool False)"
    by (simp add: droid_metrics_def Let_def)
  have d: "\<exists>m. metadata (droid_metrics sample_droid_agent
                 ''error: Factory Droid Session Complete'' empty_context) = Some m
        \<and> map_of m ''success'' = Some (MBool True)"
    by (simp add: droid_metrics_def Let_def)
  show ?thesis
    using a b c d
      droid_populate_readable[where fs = "single_file ''command-2/droid_output.log''
          (Text ''all good, work done'')", OF droid_log_single]
      droid_populate_readable[where fs = "single_file ''command-2/droid_output.log''
          (Text ''error: Factory Droid Session Complete'')", OF droid_log_single]
    by simp
qed

subsection \<open>Signs of the reported counts\<close>

lemma record_nonneg_metadata [simp]:
  "record_nonneg (c\<lparr> metadata := m \<rparr>) = record_nonneg c"
  by (simp add: record_nonneg_def)

lemma cost_per_1k_out_nonneg: "0 \<le> cost_per_1k_out p"
  by (simp add: cost_per_1k_out_def split: option.splits if_splits)

lemma cost_per_1k_tokens_nonneg: "0 \<le> cost_per_1k_tokens p"
  by (simp add: cost_per_1k_tokens_def split: option.splits if_splits)

lemma scanned_record_nonneg:
  assumes "0 \<le> num_val (total_input_tokens t)" "0 \<le> num_val (total_output_tokens t)"
    "0 \<le> num_val (total_cache_read_tokens t)" "0 \<le> num_val (total_cost t)"
  shows "record_nonneg (pi_scanned_record env a body ctx t)"
  using assms cost_per_1k_out_nonneg[of "provider a"]
  by (simp add: pi_scanned_record_def Let_def record_nonneg_def num_nonneg_def
      fallback_estimate_def le_max_iff_disj)

lemma droid_metrics_nonneg: "record_nonneg ctx \<Longrightarrow> record_nonneg (droid_metrics d out ctx)"
  using cost_per_1k_tokens_nonneg[of "droid_model d"]
  by (auto simp: droid_metrics_def Let_def record_nonneg_def num_nonneg_def pos_imp_zdiv_nonneg_iff
      split: option.splits)

lemma droid_command_outputs_nonneg:
  "record_nonneg ctx \<Longrightarrow> droid_command_outputs d fs is ctx = Inr c \<Longrightarrow> record_nonneg c"
  by (induction "is") (auto simp: Let_def split: if_splits sum.splits)

text \<open>
  Claim C8, as the code has it. pi-mono: starting from a context whose counts are unset
  or non-negative, when every usage event of the log has non-negative \<open>input\<close>,
  \<open>output\<close>, \<open>cacheRead\<close>, \<open>cacheWrite\<close> and cost, every count and the cost of
  the record are non-negative (or still unset). Factory Droid: every record it produces
  from such a context is non-negative, whatever the log holds.
\<close>

theorem counts_nonnegative_for_nonnegative_usage:
  "(record_nonneg ctx
      \<and> (\<forall>body. fs (pi_output_file fs) = Some (Text body) \<longrightarrow>
            (\<forall>u \<in> set (usage_events env (readlines body)). usage_nonneg u)) \<longrightarrow>
    (\<exists>c. pi_populate_context_post_run env a fs ctx = Inr c \<and> record_nonneg c))
   \<and> (record_nonneg ctx \<and> droid_populate_context_post_run d dfs ctx = Inr c' \<longrightarrow>
        record_nonneg c')"
proof (intro conjI impI)
  assume h: "record_nonneg ctx
      \<and> (\<forall>body. fs (pi_output_file fs) = Some (Text body) \<longrightarrow>
            (\<forall>u \<in> set (usage_events env (readlines body)). usage_nonneg u))"
  show "\<exists>c. pi_populate_context_post_run env a fs ctx = Inr c \<and> record_nonneg c"
  proof (cases "fs (pi_output_file fs)")
    case None
    with h show ?thesis
      by (simp add: pi_populate_context_post_run_def Let_def path_exists_def)
  next
    case (Some f)
    show ?thesis
    proof (cases f)
      case (Unreadable e)
      with Some h show ?thesis
        by (simp add: pi_populate_context_post_run_def Let_def path_exists_def pi_parse_def
            open_read_def)
    next
      case (Text body)
      with Some have f: "fs (pi_output_file fs) = Some (Text body)" by simp
      with h have u: "\<forall>u \<in> set (usage_events env (readlines body)). usage_nonneg u" by blast
      show ?thesis
      proof (cases "scan_lines env zero_totals (readlines body)")
        case (Inl e)
        from pi_populate_scan_raised[where fs = fs, OF f Inl] h show ?thesis by simp
      next
        case (Inr t)
        have s: "0 \<le> sum_list (map g (usage_events env (readlines body)))"
          if "\<And>u. usage_nonneg u \<Longrightarrow> 0 \<le> g u" for g :: "json \<Rightarrow> real"
          using u that by (intro sum_list_nonneg) auto
        from scan_lines_sums[OF Inr]
        have "0 \<le> num_val (total_input_tokens t)" "0 \<le> num_val (total_output_tokens t)"
          "0 \<le> num_val (total_cache_read_tokens t)" "0 \<le> num_val (total_cost t)"
          using s[of "usage_field ''input''"] s[of "usage_field ''output''"]
            s[of "usage_field ''cacheRead''"] s[of usage_cost]
          by (simp_all add: zero_totals_def usage_nonneg_def)
        then have "record_nonneg (pi_scanned_record env a body ctx t)"
          by (rule scanned_record_nonneg)
        with pi_populate_scanned[where fs = fs, OF f Inr] show ?thesis by simp
      qed
    qed
  qed
next
  assume h: "record_nonneg ctx \<and> droid_populate_context_post_run d dfs ctx = Inr c'"
  then show "record_nonneg c'"
    by (auto simp: droid_populate_context_post_run_def Let_def droid_metrics_nonneg
        split: if_splits sum.splits dest: droid_command_outputs_nonneg)
qed

text \<open>
  Claim C8 as stated fails: a usage event with \<open>"input": -5\<close> and \<open>"output": 3\<close>
  is summed as it is, and the record reports \<open>-5\<close> input tokens.
\<close>

theorem negative_usage_is_reported:
  "\<exists>c. pi_populate_context_post_run sample_env sample_pi_agent
          (single_file ''pi_output.log'' (Text (transcript [line_negative_input])))
          empty_context = Inr c
      \<and> n_input_tokens c = Some (PInt (- 5)) \<and> \<not> record_nonneg c"
proof -
  have "pi_populate_context_post_run sample_env sample_pi_agent
          (single_file ''pi_output.log'' (Text (transcript [line_negative_input])))
          empty_context =
        Inr (pi_scanned_record sample_env sample_pi_agent (transcript [line_negative_input])
               empty_context
               \<lparr> total_input_tokens = PInt (- 5), total_output_tokens = PInt 3,
                 total_cache_read_tokens = PInt 0, total_cache_write_tokens = PInt 0,
                 total_cost = PFloat 0 \<rparr>)"
    using pi_log_single scan_negative
    by (rule pi_populate_scanned
        [where fs = "single_file ''pi_output.log'' (Text (transcript [line_negative_input]))"])
  then show ?thesis
    by (simp add: pi_scanned_record_def record_nonneg_def num_nonneg_def)
qed

text \<open>The statement of C8 at a pi-mono log of two usage events and at a Factory Droid log.\<close>

theorem counts_nonnegative_for_nonnegative_usage_witness:
  "record_nonneg empty_context
   \<and> (\<exists>c. pi_populate_context_post_run sample_env sample_pi_agent
          (single_file ''pi_output.log''
             (Text (transcript [line_usage_bare_cost, line_usage_total_cost]))) empty_context = Inr c
        \<and> record_nonneg c)
   \<and> (\<exists>c. droid_populate_context_post_run sample_droid_agent
          (single_file ''command-2/droid_output.log'' (Text ''all good, work done''))
          empty_context = Inr c
        \<and> record_nonneg c)"
proof -
  have r: "record_nonneg empty_context"
    by (simp add: record_nonneg_def num_nonneg_def empty_context_def)
  have u: "\<forall>u \<in> set (usage_events sample_env
          (readlines (transcript [line_usage_bare_cost, line_usage_total_cost]))). usage_nonneg u"
    by (simp add: events_two_costs usage_nonneg_def usage_field_def usage_cost_def dict_get_def)
  have f: "\<forall>body. single_file ''pi_output.log''
             (Text (transcript [line_usage_bare_cost, line_usage_total_cost]))
             (pi_output_file (single_file ''pi_output.log''
             (Text (transcript [line_usage_bare_cost, line_usage_total_cost])))) = Some (Text body) \<longrightarrow>
            (\<forall>u \<in> set (usage_events sample_env (readlines body)). usage_nonneg u)"
    using u by (simp add: pi_log_single)
  note inst = counts_nonnegative_for_nonnegative_usage
      [where fs = "single_file ''pi_output.log''
             (Text (transcript [line_usage_bare_cost, line_usage_total_cost]))"
         and env = sample_env and a = sample_pi_agent and ctx = empty_context
         and dfs = "single_file ''command-2/droid_output.log'' (Text ''all good, work done'')"
         and d = sample_droid_agent
         and c' = "droid_metrics sample_droid_agent ''all good, work done'' empty_context"]
  have p: "\<exists>c. pi_populate_context_post_run sample_env sample_pi_agent
          (single_file ''pi_output.log''
             (Text (transcript [line_usage_bare_cost, line_usage_total_cost]))) empty_context = Inr c
        \<and> record_nonneg c"
    using inst[THEN conjunct1] r f by blast
  have d: "droid_populate_context_post_run sample_droid_agent
          (single_file ''command-2/droid_output.log'' (Text ''all good, work done''))
          empty_context = Inr (droid_metrics sample_droid_agent ''all good, work done'' empty_context)"
    using droid_log_single by (rule droid_populate_readable)
  have "record_nonneg (droid_metrics sample_droid_agent ''all good, work done'' empty_context)"
    using inst[THEN conjunct2] r d by blast
  with d p r show ?thesis by simp
qed

subsection \<open>Missing logs\<close>

lemma str_nat_digit: "n < 10 \<Longrightarrow> str_nat n = [digit_char n]"
  by (simp add: str_nat.simps)

lemma range_5: "[0 ..< 5] = [0, 1, 2, 3, 4]"
  by (simp add: upt_rec)

text \<open>
  Claim C1, where the code breaks it. With the Factory Droid log missing, the extractor
  opens \<open>command-0/stdout.txt\<close> outside any \<open>try\<close>; when reading that file raises,
  the exception reaches the caller.
\<close>

theorem droid_missing_log_branch_raises:
  "droid_populate_context_post_run d
     (single_file ''command-0/stdout.txt''
        (Unreadable (Exn UnicodeDecodeError ''invalid start byte''))) ctx =
   Inl (Exn UnicodeDecodeError ''invalid start byte'')"
  by (simp add: droid_populate_context_post_run_def path_exists_def single_file_def range_5
      command_stdout_def str_nat_digit digit_char_def open_read_def)

lemma droid_command_outputs_skip:
  assumes "\<forall>j \<in> set pre. fs (command_stdout j) = None \<or> fs (command_stdout j) = Some (Text [])"
  shows "droid_command_outputs d fs (pre @ rest) ctx = droid_command_outputs d fs rest ctx"
  using assms
  by (induction pre) (auto simp: Let_def path_exists_def open_read_def)

text \<open>
  Claim C2, as the code has it. pi-mono: when neither \<open>pi_output.log\<close> nor
  \<open>command-1/pi_output.log\<close> exists, the record's metadata is the marker
  \<open>No output file found\<close> with the provider and the model. Factory Droid: when its log
  does not exist, the first of \<open>command-0/stdout.txt\<close> .. \<open>command-4/stdout.txt\<close>
  that is read with non-empty content (those before it missing or empty) gives the marker
  \<open>No main output file\<close> with a sample of that content; when all five are missing or
  empty the context is returned untouched, without a marker.
\<close>

theorem missing_log_records:
  "(\<not> path_exists fs ''pi_output.log'' \<and> \<not> path_exists fs ''command-1/pi_output.log'' \<longrightarrow>
      pi_populate_context_post_run env a fs ctx =
        Inr (ctx\<lparr> metadata :=
               Some [(''error'', MStr ''No output file found''),
                     (''provider'', MStr (provider a)),
                     (''model'', MStr (model_or_default a))] \<rparr>))
   \<and> (\<not> path_exists dfs ''command-2/droid_output.log'' \<and> i < 5
        \<and> dfs (command_stdout i) = Some (Text content) \<and> content \<noteq> []
        \<and> (\<forall>j < i. dfs (command_stdout j) = None \<or> dfs (command_stdout j) = Some (Text [])) \<longrightarrow>
      droid_populate_context_post_run d dfs ctx =
        Inr (ctx\<lparr> metadata :=
               Some [(''error'', MStr ''No main output file''),
                     (''command_output_sample'', MStr (take 500 content)),
                     (''droid_model'', MStr (droid_model d))] \<rparr>))
   \<and> (\<not> path_exists dfs ''command-2/droid_output.log''
        \<and> (\<forall>j < 5. dfs (command_stdout j) = None \<or> dfs (command_stdout j) = Some (Text [])) \<longrightarrow>
      droid_populate_context_post_run d dfs ctx = Inr ctx)"
proof (intro conjI impI)
  assume "\<not> path_exists fs ''pi_output.log'' \<and> \<not> path_exists fs ''command-1/pi_output.log''"
  then show "pi_populate_context_post_run env a fs ctx =
        Inr (ctx\<lparr> metadata :=
               Some [(''error'', MStr ''No output file found''),
                     (''provider'', MStr (provider a)),
                     (''model'', MStr (model_or_default a))] \<rparr>)"
    by (simp add: pi_populate_context_post_run_def pi_output_file_def pi_error_metadata_def)
next
  assume h: "\<not> path_exists dfs ''command-2/droid_output.log'' \<and> i < 5
        \<and> dfs (command_stdout i) = Some (Text content) \<and> content \<noteq> []
        \<and> (\<forall>j < i. dfs (command_stdout j) = None \<or> dfs (command_stdout j) = Some (Text []))"
  then have "i < 5" by simp
  have "[0 ..< 5] = [0 ..< i] @ [i ..< 5]"
    using upt_add_eq_append[of 0 i "5 - i"] \<open>i < 5\<close> by simp
  then have r: "[0 ..< 5] = [0 ..< i] @ i # [Suc i ..< 5]"
    using upt_conv_Cons[OF \<open>i < 5\<close>] by simp
  have "droid_command_outputs d dfs ([0 ..< i] @ i # [Suc i ..< 5]) ctx =
          droid_command_outputs d dfs (i # [Suc i ..< 5]) ctx"
    using h by (intro droid_command_outputs_skip) simp
  also have "\<dots> = Inr (ctx\<lparr> metadata :=
               Some [(''error'', MStr ''No main output file''),
                     (''command_output_sample'', MStr (take 500 content)),
                     (''droid_model'', MStr (droid_model d))] \<rparr>)"
    using h by (simp add: Let_def path_exists_def open_read_def)
  finally show "droid_populate_context_post_run d dfs ctx =
        Inr (ctx\<lparr> metadata :=
               Some [(''error'', MStr ''No main output file''),
                     (''command_output_sample'', MStr (take 500 content)),
                     (''droid_model'', MStr (droid_model d))] \<rparr>)"
    using h r by (simp add: droid_populate_context_post_run_def)
next
  assume h: "\<not> path_exists dfs ''command-2/droid_output.log''
        \<and> (\<forall>j < 5. dfs (command_stdout j) = None \<or> dfs (command_stdout j) = Some (Text []))"
  have "droid_command_outputs d dfs ([0 ..< 5] @ []) ctx = droid_command_outputs d dfs [] ctx"
    using h by (intro droid_command_outputs_skip) simp
  with h show "droid_populate_context_post_run d dfs ctx = Inr ctx"
    by (simp add: droid_populate_context_post_run_def)
qed

text \<open>
  Claim C2 as stated fails for Factory Droid: with no file at all under the log
  directory, the context comes back as it was, its metadata still unset.
\<close>

theorem droid_missing_log_without_outputs_unmarked:
  "droid_populate_context_post_run sample_droid_agent (\<lambda>p. None) empty_context = Inr empty_context
   \<and> metadata empty_context = None"
  by (simp add: droid_populate_context_post_run_def path_exists_def range_5 empty_context_def)

text \<open>The statement of C2 at an empty log directory and at one holding a command output.\<close>

theorem missing_log_records_witness:
  "pi_populate_context_post_run sample_env sample_pi_agent (\<lambda>p. None) empty_context =
      Inr (empty_context\<lparr> metadata :=
             Some [(''error'', MStr ''No output file found''),
                   (''provider'', MStr ''openai''), (''model'', MStr ''gpt-4o'')] \<rparr>)
   \<and> droid_populate_context_post_run sample_droid_agent
        (single_file ''command-1/stdout.txt'' (Text ''mkdir: created'')) empty_context =
      Inr (empty_context\<lparr> metadata :=
             Some [(''error'', MStr ''No main output file''),
                   (''command_output_sample'', MStr ''mkdir: created''),
                   (''droid_model'', MStr ''claude-sonnet-4-20250514'')] \<rparr>)
   \<and> droid_populate_context_post_run sample_droid_agent (\<lambda>p. None) empty_context =
      Inr empty_context"
proof -
  have c: "command_stdout 0 = ''command-0/stdout.txt''"
    "command_stdout (Suc 0) = ''command-1/stdout.txt''"
    by (simp_all add: command_stdout_def str_nat_digit digit_char_def)
  have l: "(\<forall>j<Suc 0. P j) = P 0" for P
    by auto
  note inst1 = missing_log_records
      [where fs = "\<lambda>p. None" and env = sample_env and a = sample_pi_agent
         and ctx = empty_context and d = sample_droid_agent
         and dfs = "single_file ''command-1/stdout.txt'' (Text ''mkdir: created'')"
         and i = 1 and content = "''mkdir: created''"]
  note inst2 = missing_log_records
      [where fs = "\<lambda>p. None" and env = sample_env and a = sample_pi_agent
         and ctx = empty_context and d = sample_droid_agent
         and dfs = "\<lambda>p. None" and i = 0 and content = "[]"]
  have 1: "pi_populate_context_post_run sample_env sample_pi_agent (\<lambda>p. None) empty_context =
      Inr (empty_context\<lparr> metadata :=
             Some [(''error'', MStr ''No output file found''),
                   (''provider'', MStr ''openai''), (''model'', MStr ''gpt-4o'')] \<rparr>)"
    using inst1[THEN conjunct1]
    by (simp add: path_exists_def sample_pi_agent_def model_or_default_def truthy_def)
  have 2: "droid_populate_context_post_run sample_droid_agent
        (single_file ''command-1/stdout.txt'' (Text ''mkdir: created'')) empty_context =
      Inr (empty_context\<lparr> metadata :=
             Some [(''error'', MStr ''No main output file''),
                   (''command_output_sample'', MStr ''mkdir: created''),
                   (''droid_model'', MStr ''claude-sonnet-4-20250514'')] \<rparr>)"
    using inst1[THEN conjunct2, THEN conjunct1]
    by (simp add: path_exists_def single_file_def c l sample_droid_agent_def)
  have 3: "droid_populate_context_post_run sample_droid_agent (\<lambda>p. None) empty_context =
      Inr empty_context"
    using inst2[THEN conjunct2, THEN conjunct2]
    by (simp add: path_exists_def)
  from 1 2 3 show ?thesis by blast
qed

subsection \<open>The instruction on the command line\<close>

lemma safe_char_plain:
  assumes "shlex_safe_char c"
  shows "c \<noteq> CHR '' ''" "c \<noteq> CHR 0x09" "c \<noteq> CHR 0x0A" "c \<noteq> CHR 0x27" "c \<noteq> CHR 0x22"
    "c \<noteq> CHR 0x5C" "\<not> operator_char c" "c \<noteq> CHR ''#''" "\<not> uninterpreted_char c"
  using assms
  by (auto simp: shlex_safe_char_def operator_char_def uninterpreted_char_def)

lemma lex_safe_char:
  "shlex_safe_char c \<Longrightarrow> sh_lex Unquoted cur (c # cs) = sh_lex Unquoted (add_char cur c) cs"
  by (simp add: safe_char_plain)

lemma lex_safe_word_Some:
  "list_all shlex_safe_char w \<Longrightarrow>
     sh_lex Unquoted (Some v) (w @ rest) = sh_lex Unquoted (Some (v @ w)) rest"
proof (induction w arbitrary: v)
  case Nil
  then show ?case by simp
next
  case (Cons c w)
  then have "sh_lex Unquoted (Some v) ((c # w) @ rest) =
      sh_lex Unquoted (Some (v @ [c])) (w @ rest)"
    by (simp add: lex_safe_char add_char_def del: sh_lex.simps)
  with Cons show ?case by simp
qed

lemma lex_safe_word_None:
  assumes "plain_word w"
  shows "sh_lex Unquoted None (w @ rest) = sh_lex Unquoted (Some w) rest"
proof -
  from assms obtain c w' where w: "w = c # w'" and c: "shlex_safe_char c"
    and w': "list_all shlex_safe_char w'"
    by (cases w) (auto simp: plain_word_def)
  have "sh_lex Unquoted None (w @ rest) = sh_lex Unquoted (Some [c]) (w' @ rest)"
    using c by (simp add: w lex_safe_char add_char_def del: sh_lex.simps)
  also have "\<dots> = sh_lex Unquoted (Some ([c] @ w')) rest"
    using w' by (rule lex_safe_word_Some)
  finally show ?thesis by (simp add: w)
qed

lemma lex_quoted_body:
  "sh_lex SingleQuoted (Some v)
     (concat (map (\<lambda>c. if c = CHR 0x27 then sq @ dq @ sq @ dq @ sq else [c]) s)
        @ CHR 0x27 # rest) =
   sh_lex Unquoted (Some (v @ s)) rest"
proof (induction s arbitrary: v)
  case Nil
  then show ?case by simp
next
  case (Cons c s)
  show ?case
  proof (cases "c = CHR 0x27")
    case True
    have "sh_lex SingleQuoted (Some v)
        (concat (map (\<lambda>c. if c = CHR 0x27 then sq @ dq @ sq @ dq @ sq else [c]) (c # s))
           @ CHR 0x27 # rest) =
      sh_lex SingleQuoted (Some (v @ [c]))
        (concat (map (\<lambda>c. if c = CHR 0x27 then sq @ dq @ sq @ dq @ sq else [c]) s)
           @ CHR 0x27 # rest)"
      using True by (simp add: sq_def dq_def open_word_def add_char_def)
    with Cons.IH[of "v @ [c]"] show ?thesis by simp
  next
    case False
    then have "sh_lex SingleQuoted (Some v)
        (concat (map (\<lambda>c. if c = CHR 0x27 then sq @ dq @ sq @ dq @ sq else [c]) (c # s))
           @ CHR 0x27 # rest) =
      sh_lex SingleQuoted (Some (v @ [c]))
        (concat (map (\<lambda>c. if c = CHR 0x27 then sq @ dq @ sq @ dq @ sq else [c]) s)
           @ CHR 0x27 # rest)"
      by (simp add: add_char_def)
    with Cons.IH[of "v @ [c]"] show ?thesis by simp
  qed
qed

lemma lex_shlex_quote:
  "sh_lex Unquoted None (shlex_quote s @ rest) = sh_lex Unquoted (Some s) rest"
proof (cases "s = []")
  case True
  then show ?thesis by (simp add: shlex_quote_def sq_def open_word_def)
next
  case False
  show ?thesis
  proof (cases "list_all shlex_safe_char s")
    case True
    with False have "plain_word s" by (simp add: plain_word_def)
    then show ?thesis using True False by (simp add: shlex_quote_def lex_safe_word_None)
  next
    case unsafe: False
    have "sh_lex Unquoted None (shlex_quote s @ rest) =
        sh_lex SingleQuoted (Some [])
          (concat (map (\<lambda>c. if c = CHR 0x27 then sq @ dq @ sq @ dq @ sq else [c]) s)
             @ CHR 0x27 # rest)"
      using False unsafe by (simp add: shlex_quote_def sq_def open_word_def)
    then show ?thesis by (simp add: lex_quoted_body)
  qed
qed

lemma lex_word_end:
  "sh_lex Unquoted (Some w) (CHR '' '' # rest) =
     map_option (Cons (Word w)) (sh_lex Unquoted None rest)"
proof -
  have "flush (Some w) = Cons (Word w)" by (rule ext) (simp add: flush_def)
  then show ?thesis by simp
qed

lemma lex_plain_word:
  "plain_word w \<Longrightarrow>
     sh_lex Unquoted None (w @ CHR '' '' # rest) =
       map_option (Cons (Word w)) (sh_lex Unquoted None rest)"
  by (simp only: lex_safe_word_None lex_word_end)

lemma lex_quoted_argument:
  "sh_lex Unquoted None (shlex_quote s @ CHR '' '' # rest) =
     map_option (Cons (Word s)) (sh_lex Unquoted None rest)"
  by (simp only: lex_shlex_quote lex_word_end)

lemma join_Cons: "ys \<noteq> [] \<Longrightarrow> join sep (x # ys) = x @ sep @ join sep ys"
  by (cases ys) simp_all

lemma lex_join:
  "list_all plain_word ws \<Longrightarrow>
     sh_lex Unquoted None (join '' '' (ws @ [x]) @ rest) =
       map_option (\<lambda>ts. map Word ws @ ts) (sh_lex Unquoted None (x @ rest))"
proof (induction ws)
  case Nil
  then show ?case by (simp add: option.map_ident)
next
  case (Cons w ws)
  then have w: "plain_word w" and ws: "list_all plain_word ws" by simp_all
  have "sh_lex Unquoted None (join '' '' ((w # ws) @ [x]) @ rest) =
      sh_lex Unquoted None (w @ CHR '' '' # (join '' '' (ws @ [x]) @ rest))"
    by (simp add: join_Cons)
  also have "\<dots> = map_option (Cons (Word w)) (sh_lex Unquoted None (join '' '' (ws @ [x]) @ rest))"
    using w by (rule lex_plain_word)
  finally show ?case
    using Cons.IH[OF ws] by (simp add: option.map_comp comp_def)
qed

lemma digit_char_safe: "d < 10 \<Longrightarrow> shlex_safe_char (digit_char d)"
proof -
  assume "d < 10"
  then have "d \<in> {0, 1, 2, 3, 4, 5, 6, 7, 8, 9}" by auto
  then show ?thesis
    by (auto simp: digit_char_def shlex_safe_char_def)
qed

lemma str_nat_plain: "plain_word (str_nat n)"
proof (induction n rule: str_nat.induct)
  case (1 n)
  show ?case
  proof (cases "n < 10")
    case True
    then show ?thesis
      by (simp add: str_nat.simps[of n] plain_word_def digit_char_safe)
  next
    case False
    with 1 have "plain_word (str_nat (n div 10))" by simp
    moreover have "shlex_safe_char (digit_char (n mod 10))"
      by (rule digit_char_safe) simp
    ultimately show ?thesis
      using False by (simp add: str_nat.simps[of n] plain_word_def)
  qed
qed

lemma str_int_plain: "plain_word (str_int i)"
  using str_nat_plain[of "nat (- i)"] str_nat_plain[of "nat i"]
  by (simp add: str_int_def plain_word_def shlex_safe_char_def)

lemma flush_Some: "flush (Some w) = Cons (Word w)"
  by (rule ext) (simp add: flush_def)

lemma flush_None: "flush None = (\<lambda>ts. ts)"
  by (rule ext) (simp add: flush_def)

lemmas lex_eval_defs =
  flush_Some flush_None flush_def add_char_def open_word_def operator_char_def
  two_char_operators_def uninterpreted_char_def

lemma lex_pi_head:
  "sh_lex Unquoted None (''cd /workspace && timeout '' @ rest) =
     map_option (\<lambda>ts. [Word ''cd'', Word ''/workspace'', Op ''&&'', Word ''timeout''] @ ts)
       (sh_lex Unquoted None rest)"
  by (simp add: lex_eval_defs option.map_comp comp_def)

lemma lex_droid_head:
  "sh_lex Unquoted None (''timeout '' @ rest) =
     map_option (\<lambda>ts. [Word ''timeout''] @ ts) (sh_lex Unquoted None rest)"
  by (simp add: lex_eval_defs option.map_comp comp_def)

lemma lex_pi_tail:
  "sh_lex Unquoted None ''2>&1 | tee /logs/agent/pi_output.log'' =
     Some [Word ''2'', Op ''>&'', Word ''1'', Op ''|'', Word ''tee'',
           Word ''/logs/agent/pi_output.log'']"
  by (simp add: lex_eval_defs)

lemma lex_droid_tail:
  "sh_lex Unquoted (Some w) droid_main_tail =
     Some [Word w, Word ''2'', Op ''>&'', Word ''1'', Op ''|'', Word ''tee'',
           Word ''/logs/agent/droid_output.log'', Op ''||'', Word ''echo'',
           Word ''Factory Droid failed - likely due to authentication requirements'']"
  by (simp add: droid_main_tail_def sq_def lex_eval_defs)

lemma pi_main_command_words:
  assumes "list_all plain_word (pi_option_parts a)"
  shows "shell_words (pi_main_command a instruction) =
     Some ([Word ''cd'', Word ''/workspace'', Op ''&&'', Word ''timeout'',
            Word (str_int (timeout_seconds a))]
           @ map Word (pi_option_parts a)
           @ [Word instruction, Word ''2'', Op ''>&'', Word ''1'', Op ''|'', Word ''tee'',
              Word ''/logs/agent/pi_output.log''])"
proof -
  let ?tail = "''2>&1 | tee /logs/agent/pi_output.log''"
  have "pi_main_command a instruction =
      ''cd /workspace && timeout '' @
        (str_int (timeout_seconds a) @ CHR '' '' #
          (join '' '' (pi_option_parts a @ [shlex_quote instruction]) @ (CHR '' '' # ?tail)))"
    by (simp add: pi_main_command_def pi_command_parts_def)
  then have "shell_words (pi_main_command a instruction) =
      map_option (\<lambda>ts. [Word ''cd'', Word ''/workspace'', Op ''&&'', Word ''timeout''] @ ts)
        (map_option (Cons (Word (str_int (timeout_seconds a))))
          (map_option (\<lambda>ts. map Word (pi_option_parts a) @ ts)
            (map_option (Cons (Word instruction)) (sh_lex Unquoted None ?tail))))"
    unfolding shell_words_def
    by (simp only: lex_pi_head lex_plain_word[OF str_int_plain] lex_join[OF assms]
        lex_quoted_argument)
  then show ?thesis
    by (simp only: lex_pi_tail) simp
qed

lemma droid_main_command_words:
  assumes "list_all plain_word (droid_option_parts d)"
  shows "shell_words (droid_main_command d instruction) =
     Some ([Word ''timeout'', Word (str_int (droid_timeout_seconds d))]
           @ map Word (droid_option_parts d)
           @ [Word instruction, Word ''2'', Op ''>&'', Word ''1'', Op ''|'', Word ''tee'',
              Word ''/logs/agent/droid_output.log'', Op ''||'', Word ''echo'',
              Word ''Factory Droid failed - likely due to authentication requirements''])"
proof -
  have "droid_main_command d instruction =
      ''timeout '' @
        (str_int (droid_timeout_seconds d) @ CHR '' '' #
          (join '' '' (droid_option_parts d @ [shlex_quote instruction]) @ droid_main_tail))"
    by (simp add: droid_main_command_def)
  then have "shell_words (droid_main_command d instruction) =
      map_option (\<lambda>ts. [Word ''timeout''] @ ts)
        (map_option (Cons (Word (str_int (droid_timeout_seconds d))))
          (map_option (\<lambda>ts. map Word (droid_option_parts d) @ ts)
            (sh_lex Unquoted (Some instruction) droid_main_tail)))"
    unfolding shell_words_def
    by (simp only: lex_droid_head lex_plain_word[OF str_int_plain] lex_join[OF assms]
        lex_shlex_quote)
  then show ?thesis
    by (simp only: lex_droid_tail) simp
qed

text \<open>
  Claim C7, as the code has it. The main command is the second command of the pi-mono
  list and the third of the Factory Droid list. Provided the words the builder puts
  before the instruction (the provider, model and output mode; the droid model and the
  reasoning effort) are non-empty words of shell-safe characters, then for every
  instruction string the shell's token recognition and quote removal split the main
  command into the fixed words, those option words, the instruction itself as exactly one
  word, character for character, and the redirection that follows.
\<close>

theorem instruction_is_one_shell_word:
  "pi_create_run_agent_commands a instruction ! 1 = pi_main_command a instruction
   \<and> snd (droid_create_run_agent_commands d instruction) ! 2 = droid_main_command d instruction
   \<and> (list_all plain_word (pi_option_parts a) \<longrightarrow>
        shell_words (pi_main_command a instruction) =
          Some ([Word ''cd'', Word ''/workspace'', Op ''&&'', Word ''timeout'',
                 Word (str_int (timeout_seconds a))]
                @ map Word (pi_option_parts a)
                @ [Word instruction, Word ''2'', Op ''>&'', Word ''1'', Op ''|'', Word ''tee'',
                   Word ''/logs/agent/pi_output.log'']))
   \<and> (list_all plain_word (droid_option_parts d) \<longrightarrow>
        shell_words (droid_main_command d instruction) =
          Some ([Word ''timeout'', Word (str_int (droid_timeout_seconds d))]
                @ map Word (droid_option_parts d)
                @ [Word instruction, Word ''2'', Op ''>&'', Word ''1'', Op ''|'', Word ''tee'',
                   Word ''/logs/agent/droid_output.log'', Op ''||'', Word ''echo'',
                   Word ''Factory Droid failed - likely due to authentication requirements'']))"
  using pi_main_command_words[of a instruction] droid_main_command_words[of d instruction]
  by (simp add: pi_create_run_agent_commands_def droid_create_run_agent_commands_def)

lemma str_int_1800: "str_int 1800 = ''1800''"
  by code_simp

text \<open>
  The statement of C7 at the sample agents and an instruction with single quotes,
  double quotes, backquotes, a semicolon and a dollar sign.
\<close>

theorem instruction_is_one_shell_word_witness:
  "list_all plain_word (pi_option_parts sample_pi_agent)
   \<and> shell_words (pi_main_command sample_pi_agent tricky_instruction) =
        Some [Word ''cd'', Word ''/workspace'', Op ''&&'', Word ''timeout'', Word ''1800'',
              Word ''pi'', Word ''--provider'', Word ''openai'', Word ''--model'',
              Word ''gpt-4o'', Word ''--mode'', Word ''json'', Word tricky_instruction,
              Word ''2'', Op ''>&'', Word ''1'', Op ''|'', Word ''tee'',
              Word ''/logs/agent/pi_output.log'']
   \<and> list_all plain_word (droid_option_parts sample_droid_agent)
   \<and> shell_words (droid_main_command sample_droid_agent tricky_instruction) =
        Some [Word ''timeout'', Word ''1800'', Word ''droid'', Word ''exec'', Word ''-m'',
              Word ''claude-sonnet-4-20250514'', Word ''-r'', Word ''medium'', Word ''--auto'',
              Word ''medium'', Word tricky_instruction,
              Word ''2'', Op ''>&'', Word ''1'', Op ''|'', Word ''tee'',
              Word ''/logs/agent/droid_output.log'', Op ''||'', Word ''echo'',
              Word ''Factory Droid failed - likely due to authentication requirements'']"
proof -
  have p: "pi_option_parts sample_pi_agent =
      [''pi'', ''--provider'', ''openai'', ''--model'', ''gpt-4o'', ''--mode'', ''json'']"
    by (simp add: pi_option_parts_def sample_pi_agent_def truthy_def)
  have d: "droid_option_parts sample_droid_agent =
      [''droid'', ''exec'', ''-m'', ''claude-sonnet-4-20250514'', ''-r'', ''medium'',
       ''--auto'', ''medium'']"
    by (simp add: droid_option_parts_def sample_droid_agent_def)
  have pp: "list_all plain_word (pi_option_parts sample_pi_agent)"
    unfolding p by (simp add: plain_word_def shlex_safe_char_def)
  have dp: "list_all plain_word (droid_option_parts sample_droid_agent)"
    unfolding d by (simp add: plain_word_def shlex_safe_char_def)
  have t: "timeout_seconds sample_pi_agent = 1800"
    "droid_timeout_seconds sample_droid_agent = 1800"
    by (simp_all add: sample_pi_agent_def sample_droid_agent_def)
  show ?thesis
    using instruction_is_one_shell_word[of sample_pi_agent tricky_instruction sample_droid_agent]
      pp dp
    by (simp add: p d t str_int_1800)
qed

text \<open>
  Claim C7 as stated fails for an agent whose model name is not a plain word: the model
  is put on the command line unquoted, so with the model \<open>x #\<close> the shell reads the
  rest of the line, the instruction included, as a comment.
\<close>

theorem unquoted_model_hides_instruction:
  "PiMonoAgent_init
      \<lparr> kw_provider = None, kw_pi_model = None, kw_output_mode = None,
        kw_no_session = None, kw_timeout_seconds = None \<rparr> (Some ''openai/x #'') =
     Inr (sample_pi_agent\<lparr> pi_model := Some ''x #'' \<rparr>)
   \<and> shell_words
     (pi_main_command (sample_pi_agent\<lparr> pi_model := Some ''x #'' \<rparr>) ''hello world'') =
   Some [Word ''cd'', Word ''/workspace'', Op ''&&'', Word ''timeout'', Word ''1800'',
         Word ''pi'', Word ''--provider'', Word ''openai'', Word ''--model'', Word ''x'']
   \<and> Word ''hello world'' \<notin> set (the (shell_words
         (pi_main_command (sample_pi_agent\<lparr> pi_model := Some ''x #'' \<rparr>) ''hello world'')))"
proof -
  have "shell_words
     (pi_main_command (sample_pi_agent\<lparr> pi_model := Some ''x #'' \<rparr>) ''hello world'') =
   Some [Word ''cd'', Word ''/workspace'', Op ''&&'', Word ''timeout'', Word ''1800'',
         Word ''pi'', Word ''--provider'', Word ''openai'', Word ''--model'', Word ''x'']"
    by (simp add: shell_words_def pi_main_command_def pi_command_parts_def pi_option_parts_def
        sample_pi_agent_def truthy_def str_int_1800 shlex_quote_def shlex_safe_char_def sq_def
        lex_eval_defs)
  moreover have "PiMonoAgent_init
      \<lparr> kw_provider = None, kw_pi_model = None, kw_output_mode = None,
        kw_no_session = None, kw_timeout_seconds = None \<rparr> (Some ''openai/x #'') =
     Inr (sample_pi_agent\<lparr> pi_model := Some ''x #'' \<rparr>)"
    by (simp add: PiMonoAgent_init_def exn_bind_def truthy_def split_once_def provider_map_def
        map_model_name_def lower_def lower_char_def normalize_model_id_def sample_pi_agent_def)
  ultimately show ?thesis by simp
qed

end
